theory Spec2Isabelle
  imports Complex_Main "HOL-Library.Multiset"
begin

section \<open>Data model (database/models.py)\<close>

text \<open>
  A Python \<open>str\<close> is a sequence of Unicode code points, so it is modelled as a list of
  natural numbers; \<open>ascii\<close> writes an ASCII literal.
\<close>

type_synonym pystr = "nat list"

definition ascii :: "string \<Rightarrow> pystr" where
  "ascii s = map of_char s"

text \<open>
  A \<open>datetime\<close> holds its wall-clock fields, here as the number of microseconds of the
  naive reading since the start of the calendar, and an optional \<open>tzinfo\<close>, here the UTC
  offset in microseconds. A \<open>timedelta\<close> is a number of microseconds.
\<close>

record datetime =
  wall :: int
  tzinfo :: "int option"

text \<open>The exceptions that the modelled code raises or catches.\<close>

datatype py_error = TypeError | ValueError | IntegrityError | OperationalError | OtherException

record News =
  title :: pystr
  link :: pystr
  description :: pystr
  source :: pystr
  published_at :: datetime
  language :: pystr
  rating :: real
  parsed_at :: "datetime option"
  content_hash :: "pystr option"
  id_news :: "nat option"

text \<open>
  \<open>News.calculate_hash\<close>: the SHA-256 hex digest of the UTF-8 encoding of the f-string
  \<open>{title}{link}{description}\<close>. The digest is the library's; it is the parameter
  \<open>sha256_hex\<close>.
\<close>

definition calculate_hash :: "(pystr \<Rightarrow> pystr) \<Rightarrow> News \<Rightarrow> pystr" where
  "calculate_hash sha256_hex n = sha256_hex (title n @ link n @ description n)"

text \<open>
  \<open>News.__post_init__\<close>, run by the dataclass constructor on the fields it was given;
  \<open>now\<close> is the reading of \<open>datetime.now()\<close>, a naive local time.
\<close>

definition post_init :: "(pystr \<Rightarrow> pystr) \<Rightarrow> int \<Rightarrow> News \<Rightarrow> News" where
  "post_init sha256_hex now n =
     (let n1 = (if parsed_at n = None
                then n\<lparr>parsed_at := Some \<lparr>wall = now, tzinfo = None\<rparr>\<rparr> else n)
      in if content_hash n1 = None
         then n1\<lparr>content_hash := Some (calculate_hash sha256_hex n1)\<rparr>
         else n1)"

section \<open>The store (database/db_manager.py)\<close>

text \<open>
  The table \<open>news\<close> with its \<open>AUTOINCREMENT\<close> counter. A row is a \<open>News\<close> whose
  \<open>id_news\<close> is set. The only exception that the \<open>INSERT\<close> raises here is
  \<open>IntegrityError\<close>; a failure of the database file itself is an input of the
  scheduler's cycle, further down.
\<close>

record database =
  news_rows :: "News list"
  news_seq :: nat

text \<open>
  The \<open>INSERT\<close> statement under the constraints of \<open>init_database\<close>:
  \<open>parsed_at DATETIME NOT NULL\<close> (the other \<open>NOT NULL\<close> columns are not optional in
  \<open>News\<close>), \<open>title UNIQUE\<close>, \<open>link UNIQUE\<close>, \<open>content_hash UNIQUE\<close> (a \<open>NULL\<close> never
  conflicts).
\<close>

definition insert_news :: "database \<Rightarrow> News \<Rightarrow> py_error + (nat \<times> database)" where
  "insert_news db n =
     (if parsed_at n = None then Inl IntegrityError
      else if \<exists>r \<in> set (news_rows db).
                title r = title n \<or> link r = link n \<or>
                (content_hash n \<noteq> None \<and> content_hash r = content_hash n)
      then Inl IntegrityError
      else let i = Suc (news_seq db)
           in Inr (i, db\<lparr>news_rows := news_rows db @ [n\<lparr>id_news := Some i\<rparr>],
                         news_seq := i\<rparr>))"

text \<open>
  \<open>DatabaseManager.add_news\<close>: \<open>get_connection\<close> commits when the block ends and rolls
  back and re-raises on an exception; \<open>add_news\<close> catches \<open>IntegrityError\<close> only.
\<close>

definition add_news :: "database \<Rightarrow> News \<Rightarrow> py_error + (nat option \<times> database)" where
  "add_news db n =
     (case insert_news db n of
        Inr (i, db') \<Rightarrow> Inr (Some i, db')
      | Inl IntegrityError \<Rightarrow> Inr (None, db)
      | Inl e \<Rightarrow> Inl e)"

definition empty_database :: database where
  "empty_database = \<lparr>news_rows = [], news_seq = 0\<rparr>"

section \<open>Deduplication\<close>

lemma post_init_fields:
  "title (post_init H t n) = title n"
  "link (post_init H t n) = link n"
  "description (post_init H t n) = description n"
  "parsed_at (post_init H t n) \<noteq> None"
  "content_hash (post_init H t n) \<noteq> None"
  by (auto simp: post_init_def Let_def)

lemma post_init_hash:
  "content_hash n = None \<Longrightarrow>
   content_hash (post_init H t n) = Some (H (title n @ link n @ description n))"
  by (simp add: post_init_def Let_def calculate_hash_def)

text \<open>
  C10. The fingerprint is not injective in the triple (title, link, description): the
  three fields are concatenated with no separator, so title \<open>ab\<close> with link \<open>c\<close> and
  title \<open>a\<close> with link \<open>bc\<close>, with the same description, have the same hash input and
  the same fingerprint, whatever the digest function; the store then refuses the second
  entry although neither its title nor its link is taken.
\<close>

theorem calculate_hash_not_injective:
  fixes n :: News and H :: "pystr \<Rightarrow> pystr"
  defines "a \<equiv> n\<lparr>title := ascii ''ab'', link := ascii ''c'', content_hash := None\<rparr>"
      and "b \<equiv> n\<lparr>title := ascii ''a'', link := ascii ''bc'', content_hash := None\<rparr>"
  shows "title a \<noteq> title b \<and> link a \<noteq> link b \<and> description a = description b \<and>
         title a @ link a @ description a = title b @ link b @ description b \<and>
         calculate_hash H a = calculate_hash H b \<and>
         content_hash (post_init H t a) = content_hash (post_init H t' b) \<and>
         (\<exists>i db. add_news empty_database (post_init H t a) = Inr (Some i, db) \<and>
                 add_news db (post_init H t' b) = Inr (None, db))"
proof -
  have fields: "title a \<noteq> title b" "link a \<noteq> link b" "description a = description b"
    by (simp_all add: a_def b_def ascii_def)
  have input: "title a @ link a @ description a = title b @ link b @ description b"
    by (simp add: a_def b_def ascii_def)
  then have hash: "calculate_hash H a = calculate_hash H b"
    by (simp add: calculate_hash_def)
  have ha: "content_hash (post_init H t a) = Some (calculate_hash H a)"
    by (simp add: post_init_hash calculate_hash_def a_def)
  have hb: "content_hash (post_init H t' b) = Some (calculate_hash H b)"
    by (simp add: post_init_hash calculate_hash_def b_def)
  have first: "add_news empty_database (post_init H t a) =
      Inr (Some 1, \<lparr>news_rows = [(post_init H t a)\<lparr>id_news := Some 1\<rparr>], news_seq = 1\<rparr>)"
    by (simp add: add_news_def insert_news_def empty_database_def post_init_fields)
  have second: "add_news \<lparr>news_rows = [(post_init H t a)\<lparr>id_news := Some 1\<rparr>], news_seq = 1\<rparr>
      (post_init H t' b) = Inr (None,
        \<lparr>news_rows = [(post_init H t a)\<lparr>id_news := Some 1\<rparr>], news_seq = 1\<rparr>)"
    using hash by (simp add: add_news_def insert_news_def post_init_fields ha hb)
  from fields input hash ha hb first second show ?thesis by auto
qed

text \<open>
  C1. Let \<open>n\<close> be a \<open>News\<close> as its constructor leaves it, and let the store hold no row
  with its title, its link or its fingerprint. Then \<open>add_news\<close> raises nothing and
  returns an id; after it, \<open>add_news\<close> of any entry with the same title, or the same
  link, or the same fingerprint raises nothing, returns \<open>None\<close> and leaves the store as
  it was. The fingerprint that the constructor computes depends on title, link and
  description only, so an entry with these three fields and any other source or
  timestamps is such an entry.
\<close>

theorem add_news_dedup:
  assumes n: "n = post_init H t n0"
    and fresh: "\<forall>r \<in> set (news_rows db).
                  title r \<noteq> title n \<and> link r \<noteq> link n \<and> content_hash r \<noteq> content_hash n"
  shows "\<exists>i db'. add_news db n = Inr (Some i, db') \<and>
           (\<forall>m. title m = title n \<or> link m = link n \<or> content_hash m = content_hash n
                 \<longrightarrow> add_news db' m = Inr (None, db')) \<and>
           (\<forall>m0 t'. content_hash n0 = None \<and> content_hash m0 = None \<and> title m0 = title n0 \<and>
                 link m0 = link n0 \<and> description m0 = description n0
                 \<longrightarrow> content_hash (post_init H t' m0) = content_hash n \<and>
                     add_news db' (post_init H t' m0) = Inr (None, db'))"
proof -
  define i where "i = Suc (news_seq db)"
  define db' where "db' = db\<lparr>news_rows := news_rows db @ [n\<lparr>id_news := Some i\<rparr>], news_seq := i\<rparr>"
  have pn: "parsed_at n \<noteq> None" and hn: "content_hash n \<noteq> None"
    using n by (simp_all add: post_init_fields)
  have ins: "insert_news db n = Inr (i, db')"
    using pn fresh by (auto simp: insert_news_def i_def db'_def Let_def)
  then have first: "add_news db n = Inr (Some i, db')"
    by (simp add: add_news_def)
  have dup: "add_news db' m = Inr (None, db')"
    if "title m = title n \<or> link m = link n \<or> content_hash m = content_hash n" for m
  proof -
    have "insert_news db' m = Inl IntegrityError"
    proof (cases "parsed_at m = None")
      case True
      then show ?thesis by (simp add: insert_news_def)
    next
      case False
      have "\<exists>r \<in> set (news_rows db'). title r = title m \<or> link r = link m \<or>
              (content_hash m \<noteq> None \<and> content_hash r = content_hash m)"
        using that hn by (auto simp: db'_def)
      with False show ?thesis by (simp add: insert_news_def)
    qed
    then show ?thesis by (simp add: add_news_def)
  qed
  have same: "content_hash (post_init H t' m0) = content_hash n \<and>
              add_news db' (post_init H t' m0) = Inr (None, db')"
    if "content_hash n0 = None" "content_hash m0 = None" "title m0 = title n0"
       "link m0 = link n0" "description m0 = description n0" for m0 t'
  proof -
    have "content_hash (post_init H t' m0) = content_hash n"
      using that n by (simp add: post_init_hash)
    then show ?thesis using dup by blast
  qed
  from first dup same show ?thesis by blast
qed

theorem add_news_dedup_witness:
  fixes n0 m0 :: News
  defines "n0 \<equiv> \<lparr>title = ascii ''t'', link = ascii ''l'', description = ascii ''d'',
           source = ascii ''Habr'', published_at = \<lparr>wall = 1, tzinfo = None\<rparr>,
           language = ascii ''ru'', rating = 0, parsed_at = None, content_hash = None,
           id_news = None\<rparr>"
      and "m0 \<equiv> \<lparr>title = ascii ''t'', link = ascii ''l'', description = ascii ''d'',
           source = ascii ''Dev.to'', published_at = \<lparr>wall = 7, tzinfo = Some 0\<rparr>,
           language = ascii ''en'', rating = 3, parsed_at = None, content_hash = None,
           id_news = None\<rparr>"
  shows "\<exists>i db'. add_news empty_database (post_init (\<lambda>s. s) 5 n0)
                    = Inr (Some i, db') \<and>
                  add_news db' (post_init (\<lambda>s. s) 9 m0)
                    = Inr (None, db')"
proof -
  let ?n = "post_init (\<lambda>s. s) 5 n0"
  let ?m = "post_init (\<lambda>s. s) 9 m0"
  have fresh: "\<forall>r \<in> set (news_rows empty_database).
      title r \<noteq> title ?n \<and> link r \<noteq> link ?n \<and> content_hash r \<noteq> content_hash ?n"
    by (simp add: empty_database_def)
  from add_news_dedup [OF refl fresh] obtain i db'
    where first: "add_news empty_database ?n = Inr (Some i, db')"
      and dup: "\<forall>m. title m = title ?n \<or> link m = link ?n \<or> content_hash m = content_hash ?n
                 \<longrightarrow> add_news db' m = Inr (None, db')"
    by blast
  have "title ?m = title ?n"
    by (simp add: post_init_fields n0_def m0_def)
  with dup have "add_news db' ?m = Inr (None, db')"
    by blast
  with first show ?thesis
    by blast
qed

section \<open>Floating-point numbers\<close>

text \<open>
  A Python \<open>float\<close> is an IEEE 754 binary64 number. It is modelled by the real number
  it stands for, and an arithmetic operation on floats by the exact operation followed
  by \<open>fl64\<close>, the rounding to the nearest double, a tie going to the even mantissa:
  below \<open>2 ^ (- 1022)\<close> the doubles are the multiples of \<open>2 ^ (- 1074)\<close>, elsewhere
  they have 53 significant bits. A decimal literal stands for the double nearest to it;
  the literals that are written here without \<open>fl64\<close> are doubles themselves
  (\<open>fl64_literals\<close>). The numbers of the ranking stay far below the largest double, and
  overflow is not modelled.
\<close>

definition round_half_even :: "real \<Rightarrow> int" where
  "round_half_even y =
     (let f = \<lfloor>y\<rfloor>; d = y - of_int f
      in if d < 1 / 2 then f else if 1 / 2 < d then f + 1
         else if even f then f else f + 1)"

definition fl64 :: "real \<Rightarrow> real" where
  "fl64 x =
     (if x = 0 then 0
      else let e = max \<lfloor>log 2 \<bar>x\<bar>\<rfloor> (- 1022);
               ulp = 2 powi (e - 52)
           in of_int (round_half_even (x / ulp)) * ulp)"

definition float_add :: "real \<Rightarrow> real \<Rightarrow> real" where
  "float_add a b = fl64 (a + b)"

definition float_mul :: "real \<Rightarrow> real \<Rightarrow> real" where
  "float_mul a b = fl64 (a * b)"

definition float_div :: "real \<Rightarrow> real \<Rightarrow> real" where
  "float_div a b = fl64 (a / b)"

text \<open>The conversion of an \<open>int\<close> to a \<open>float\<close>.\<close>

definition float_of_int :: "int \<Rightarrow> real" where
  "float_of_int n = fl64 (of_int n)"

text \<open>
  \<open>round(x, 2)\<close> on a float: the decimal number with two digits behind the point
  that is nearest to the exact value of \<open>x\<close>, a tie going to the even digit, and then the
  double nearest to that decimal number.
\<close>

definition round2 :: "real \<Rightarrow> real" where
  "round2 x = fl64 (of_int (round_half_even (x * 100)) / 100)"

lemma round_half_even_floor: "\<lfloor>y\<rfloor> \<le> round_half_even y"
  by (simp add: round_half_even_def Let_def)

lemma round_half_even_ceiling: "round_half_even y \<le> \<lceil>y\<rceil>"
  unfolding round_half_even_def Let_def
  by (auto simp: ceiling_altdef)

lemma round_half_even_near: "\<bar>of_int (round_half_even y) - y\<bar> \<le> 1 / 2"
  unfolding round_half_even_def Let_def
  by (auto simp: abs_if) linarith+

lemma floor_log2_eq:
  assumes "0 < y" and "2 powi e \<le> y" and "y < 2 powi (e + 1)"
  shows "\<lfloor>log 2 y\<rfloor> = e"
proof -
  have "2 powr real_of_int e = (2::real) powi e"
    by (rule powr_real_of_int') simp_all
  moreover have "2 powr real_of_int (e + 1) = (2::real) powi (e + 1)"
    by (rule powr_real_of_int') simp_all
  ultimately have "2 powr real_of_int e \<le> y \<and> y < 2 powr (real_of_int e + 1)"
    using assms by (simp add: add.commute)
  then show ?thesis
    using assms(1) by (simp add: floor_log_eq_powr_iff)
qed

lemma floor_log2_le_3:
  assumes "0 < x" and "x \<le> 10"
  shows "\<lfloor>log 2 x\<rfloor> \<le> 3"
proof (rule ccontr)
  assume "\<not> \<lfloor>log 2 x\<rfloor> \<le> 3"
  then have k: "4 \<le> \<lfloor>log 2 x\<rfloor>"
    by simp
  have "2 powr real_of_int \<lfloor>log 2 x\<rfloor> \<le> x"
    using floor_log_eq_powr_iff [of x 2 "\<lfloor>log 2 x\<rfloor>"] assms by simp
  moreover have "2 powr real_of_int \<lfloor>log 2 x\<rfloor> = 2 powi \<lfloor>log 2 x\<rfloor>"
    by (rule powr_real_of_int') simp_all
  moreover have "(2::real) powi 4 \<le> 2 powi \<lfloor>log 2 x\<rfloor>"
    using k by (intro power_int_increasing) simp_all
  ultimately show False
    using assms by simp
qed

text \<open>
  The value of \<open>fl64\<close> at a number whose binary exponent \<open>e\<close> is given: the rule by
  which the examples below are computed.
\<close>

lemma fl64_eval:
  assumes "x \<noteq> 0" and "2 powi e \<le> \<bar>x\<bar>" and "\<bar>x\<bar> < 2 powi (e + 1)" and "- 1022 \<le> e"
  shows "fl64 x = of_int (round_half_even (x / 2 powi (e - 52))) * 2 powi (e - 52)"
proof -
  have "\<lfloor>log 2 \<bar>x\<bar>\<rfloor> = e"
    using assms by (intro floor_log2_eq) simp_all
  with assms show ?thesis
    by (simp add: fl64_def Let_def max_def)
qed

lemma fl64_zero: "fl64 0 = 0"
  by (simp add: fl64_def)

lemma fl64_nonneg:
  assumes "0 \<le> x"
  shows "0 \<le> fl64 x"
proof (cases "x = 0")
  case True
  then show ?thesis by (simp add: fl64_def)
next
  case False
  define ulp :: real where "ulp = 2 powi (max \<lfloor>log 2 \<bar>x\<bar>\<rfloor> (- 1022) - 52)"
  have "0 < ulp" by (simp add: ulp_def)
  then have "0 \<le> x / ulp" using assms by simp
  then have "0 \<le> \<lfloor>x / ulp\<rfloor>" by simp
  then have "0 \<le> round_half_even (x / ulp)"
    using round_half_even_floor [of "x / ulp"] by linarith
  with \<open>0 < ulp\<close> False show ?thesis
    by (simp add: fl64_def Let_def ulp_def)
qed

lemma fl64_le_10:
  assumes "x \<le> 10"
  shows "fl64 x \<le> 10"
proof (cases "x \<le> 0")
  case True
  show ?thesis
  proof (cases "x = 0")
    case True
    then show ?thesis by (simp add: fl64_def)
  next
    case False
    define ulp :: real where "ulp = 2 powi (max \<lfloor>log 2 \<bar>x\<bar>\<rfloor> (- 1022) - 52)"
    have "0 < ulp" by (simp add: ulp_def)
    then have "x / ulp \<le> 0" using True by (simp add: divide_le_0_iff)
    then have "\<lceil>x / ulp\<rceil> \<le> 0" by (simp add: ceiling_le_iff)
    then have "round_half_even (x / ulp) \<le> 0"
      using round_half_even_ceiling [of "x / ulp"] by linarith
    then have "of_int (round_half_even (x / ulp)) * ulp \<le> 0"
      using \<open>0 < ulp\<close> by (simp add: mult_le_0_iff)
    with False show ?thesis
      by (simp add: fl64_def Let_def ulp_def)
  qed
next
  case False
  then have pos: "0 < x" by simp
  define e where "e = max \<lfloor>log 2 \<bar>x\<bar>\<rfloor> (- 1022)"
  define ulp :: real where "ulp = 2 powi (e - 52)"
  have e: "e \<le> 3"
    using floor_log2_le_3 [OF pos assms] pos by (simp add: e_def)
  have ulp: "0 < ulp" by (simp add: ulp_def)
  have ten: "10 / ulp = of_int (10 * 2 ^ nat (52 - e))"
  proof -
    have "inverse ulp = 2 powi (52 - e)"
      by (simp add: ulp_def flip: power_int_minus)
    also have "\<dots> = 2 ^ nat (52 - e)"
      using e by (simp add: power_int_def)
    finally show ?thesis
      by (simp add: divide_inverse)
  qed
  have "x / ulp \<le> 10 / ulp"
    using assms ulp by (simp add: divide_right_mono)
  then have "\<lceil>x / ulp\<rceil> \<le> 10 * 2 ^ nat (52 - e)"
    unfolding ten by (simp only: ceiling_le_iff)
  then have "round_half_even (x / ulp) \<le> 10 * 2 ^ nat (52 - e)"
    using round_half_even_ceiling [of "x / ulp"] by linarith
  then have "of_int (round_half_even (x / ulp)) \<le> 10 / ulp"
    unfolding ten by (simp only: of_int_le_iff)
  then have "of_int (round_half_even (x / ulp)) * ulp \<le> 10"
    using ulp by (simp add: pos_le_divide_eq)
  with pos show ?thesis
    by (simp add: fl64_def Let_def ulp_def e_def)
qed

lemma fl64_literals:
  "fl64 0.25 = 0.25" "fl64 0.5 = 0.5" "fl64 1 = 1" "fl64 5 = 5" "fl64 7.5 = 7.5"
  "fl64 8 = 8" "fl64 8.5 = 8.5" "fl64 9 = 9" "fl64 10 = 10"
proof -
  show "fl64 0.25 = 0.25"
    by (subst fl64_eval [where e = "- 2"])
      (simp_all add: round_half_even_def Let_def power_int_minus)
  show "fl64 0.5 = 0.5"
    by (subst fl64_eval [where e = "- 1"])
      (simp_all add: round_half_even_def Let_def power_int_minus)
  show "fl64 1 = 1"
    by (subst fl64_eval [where e = 0])
      (simp_all add: round_half_even_def Let_def power_int_minus)
  show "fl64 5 = 5"
    by (subst fl64_eval [where e = 2])
      (simp_all add: round_half_even_def Let_def power_int_minus)
  show "fl64 7.5 = 7.5"
    by (subst fl64_eval [where e = 2])
      (simp_all add: round_half_even_def Let_def power_int_minus)
  show "fl64 8 = 8"
    by (subst fl64_eval [where e = 3])
      (simp_all add: round_half_even_def Let_def power_int_minus)
  show "fl64 8.5 = 8.5"
    by (subst fl64_eval [where e = 3])
      (simp_all add: round_half_even_def Let_def power_int_minus)
  show "fl64 9 = 9"
    by (subst fl64_eval [where e = 3])
      (simp_all add: round_half_even_def Let_def power_int_minus)
  show "fl64 10 = 10"
    by (subst fl64_eval [where e = 3])
      (simp_all add: round_half_even_def Let_def power_int_minus)
qed

lemma round2_range:
  assumes "0 \<le> x" and "x \<le> 10"
  shows "0 \<le> round2 x \<and> round2 x \<le> 10"
proof -
  have "0 \<le> \<lfloor>x * 100\<rfloor>"
    using assms by simp
  then have lo: "0 \<le> round_half_even (x * 100)"
    using round_half_even_floor [of "x * 100"] by linarith
  have "\<lceil>x * 100\<rceil> \<le> 1000"
    using assms by (simp add: ceiling_le_iff)
  then have hi: "round_half_even (x * 100) \<le> 1000"
    using round_half_even_ceiling [of "x * 100"] by linarith
  have "0 \<le> real_of_int (round_half_even (x * 100)) / 100"
    using lo by simp
  moreover have "real_of_int (round_half_even (x * 100)) / 100 \<le> 10"
    using hi by simp
  ultimately show ?thesis
    by (simp add: round2_def fl64_nonneg fl64_le_10)
qed

lemma round2_decimal:
  "\<exists>k :: int. round2 x = fl64 (of_int k / 100) \<and> \<bar>of_int k / 100 - x\<bar> \<le> 1 / 200"
proof -
  have "\<bar>of_int (round_half_even (x * 100)) / 100 - x\<bar> \<le> 1 / 200"
    using round_half_even_near [of "x * 100"]
    by (simp add: abs_if field_simps split: if_splits)
  then show ?thesis
    unfolding round2_def by blast
qed

text \<open>The doubles of the decimal literals of the ranking that are no doubles themselves.\<close>

lemma fl64_decimals:
  "fl64 0.1 = 3602879701896397 / 2 ^ 55"
  "fl64 0.2 = 3602879701896397 / 2 ^ 54"
  "fl64 0.3 = 5404319552844595 / 2 ^ 54"
  "fl64 0.7 = 3152519739159347 / 2 ^ 52"
  "fl64 0.8 = 3602879701896397 / 2 ^ 52"
  "fl64 0.9 = 8106479329266893 / 2 ^ 53"
proof -
  show "fl64 0.1 = 3602879701896397 / 2 ^ 55"
    by (subst fl64_eval [where e = "- 4"])
      (simp_all add: round_half_even_def Let_def power_int_minus)
  show "fl64 0.2 = 3602879701896397 / 2 ^ 54"
    by (subst fl64_eval [where e = "- 3"])
      (simp_all add: round_half_even_def Let_def power_int_minus)
  show "fl64 0.3 = 5404319552844595 / 2 ^ 54"
    by (subst fl64_eval [where e = "- 2"])
      (simp_all add: round_half_even_def Let_def power_int_minus)
  show "fl64 0.7 = 3152519739159347 / 2 ^ 52"
    by (subst fl64_eval [where e = "- 1"])
      (simp_all add: round_half_even_def Let_def power_int_minus)
  show "fl64 0.8 = 3602879701896397 / 2 ^ 52"
    by (subst fl64_eval [where e = "- 1"])
      (simp_all add: round_half_even_def Let_def power_int_minus)
  show "fl64 0.9 = 8106479329266893 / 2 ^ 53"
    by (subst fl64_eval [where e = "- 1"])
      (simp_all add: round_half_even_def Let_def power_int_minus)
qed

text \<open>
  Rounding does not go below a double: a number that is at least \<open>m * 2 ^ q\<close>, a double
  when \<open>m\<close> has at most 53 bits and \<open>q\<close> is at least \<open>- 1074\<close>, is rounded to a number
  that is at least \<open>m * 2 ^ q\<close>.
\<close>

lemma fl64_ge_dyadic:
  fixes m q :: int
  assumes m: "0 < m" "m < 2 ^ 53" and q: "- 1074 \<le> q" and le: "of_int m * 2 powi q \<le> x"
  shows "of_int m * 2 powi q \<le> fl64 x"
proof -
  define y :: real where "y = of_int m * 2 powi q"
  have ypos: "0 < y"
    using m by (simp add: y_def)
  then have xpos: "0 < x"
    using le by (simp add: y_def)
  define e where "e = max \<lfloor>log 2 \<bar>x\<bar>\<rfloor> (- 1022)"
  define ulp :: real where "ulp = 2 powi (e - 52)"
  have ulp: "0 < ulp"
    by (simp add: ulp_def)
  have fl: "fl64 x = of_int (round_half_even (x / ulp)) * ulp"
    using xpos by (simp add: fl64_def Let_def e_def ulp_def)
  have "y \<le> of_int (round_half_even (x / ulp)) * ulp"
  proof (cases "e - 52 \<le> q")
    case True
    have "y / ulp = of_int m * 2 powi (q - (e - 52))"
      by (simp add: y_def ulp_def power_int_diff)
    also have "\<dots> = of_int (m * 2 ^ nat (q - (e - 52)))"
      using True by (simp add: power_int_def)
    finally have int: "y / ulp = of_int (m * 2 ^ nat (q - (e - 52)))" .
    have "y / ulp \<le> x / ulp"
      using le ulp by (simp add: y_def divide_right_mono)
    then have "m * 2 ^ nat (q - (e - 52)) \<le> \<lfloor>x / ulp\<rfloor>"
      unfolding int by (simp only: le_floor_iff)
    then have "m * 2 ^ nat (q - (e - 52)) \<le> round_half_even (x / ulp)"
      using round_half_even_floor [of "x / ulp"] by linarith
    then have "y / ulp \<le> of_int (round_half_even (x / ulp))"
      unfolding int by (simp only: of_int_le_iff)
    then show ?thesis
      using ulp by (simp add: pos_divide_le_eq)
  next
    case False
    then have e: "e = \<lfloor>log 2 x\<rfloor>" and qe: "q + 53 \<le> e"
      using q xpos by (simp_all add: e_def max_def split: if_splits)
    have "2 powr real_of_int \<lfloor>log 2 x\<rfloor> \<le> x"
      using floor_log_eq_powr_iff [of x 2 "\<lfloor>log 2 x\<rfloor>"] xpos by simp
    moreover have "2 powr real_of_int \<lfloor>log 2 x\<rfloor> = 2 powi \<lfloor>log 2 x\<rfloor>"
      by (rule powr_real_of_int') simp_all
    ultimately have pow: "2 powi e \<le> x"
      by (simp add: e)
    have two: "(2::real) powi e / ulp = of_int (2 ^ 52)"
      by (simp add: ulp_def power_int_diff)
    have "2 powi e / ulp \<le> x / ulp"
      using pow ulp by (simp add: divide_right_mono)
    then have "2 ^ 52 \<le> \<lfloor>x / ulp\<rfloor>"
      unfolding two by (simp only: le_floor_iff)
    then have "2 ^ 52 \<le> round_half_even (x / ulp)"
      using round_half_even_floor [of "x / ulp"] by linarith
    then have "2 powi e / ulp \<le> of_int (round_half_even (x / ulp))"
      unfolding two by (simp only: of_int_le_iff)
    then have big: "2 powi e \<le> of_int (round_half_even (x / ulp)) * ulp"
      using ulp by (simp add: pos_divide_le_eq)
    have "of_int m \<le> (2::real) ^ 53"
      using m(2) by (metis less_imp_le of_int_le_iff of_int_numeral of_int_power)
    then have "y \<le> 2 ^ 53 * 2 powi q"
      by (simp add: y_def)
    also have "\<dots> = 2 powi (q + 53)"
      by (simp add: power_int_add)
    also have "\<dots> \<le> 2 powi e"
      using qe by (intro power_int_increasing) simp_all
    finally show ?thesis
      using big by simp
  qed
  then show ?thesis
    by (simp add: fl y_def)
qed

section \<open>Configuration (config/settings.py, config/sources.py)\<close>

record rss_source =
  src_name :: pystr
  src_url :: pystr
  src_language :: pystr
  src_weight :: real
  src_category :: pystr

definition RSS_SOURCES :: "rss_source list" where
  "RSS_SOURCES = [
     \<lparr>src_name = ascii ''Dev.to'', src_url = ascii ''https://dev.to/feed'',
      src_language = ascii ''en'', src_weight = 8.5, src_category = ascii ''vibe-coding''\<rparr>,
     \<lparr>src_name = ascii ''Hacker News'', src_url = ascii ''https://hnrss.org/newest'',
      src_language = ascii ''en'', src_weight = 9.0, src_category = ascii ''vibe-coding''\<rparr>,
     \<lparr>src_name = ascii ''Reddit Programming'',
      src_url = ascii ''https://www.reddit.com/r/programming/.rss'',
      src_language = ascii ''en'', src_weight = 7.5, src_category = ascii ''vibe-coding''\<rparr>,
     \<lparr>src_name = ascii ''GitHub Blog'', src_url = ascii ''https://github.blog/feed/'',
      src_language = ascii ''en'', src_weight = 8.0, src_category = ascii ''vibe-coding''\<rparr>,
     \<lparr>src_name = ascii ''Habr'', src_url = ascii ''https://habr.com/ru/rss/all/all/'',
      src_language = ascii ''ru'', src_weight = 9.0, src_category = ascii ''vibe-coding''\<rparr>,
     \<lparr>src_name = ascii ''Tproger'', src_url = ascii ''https://tproger.ru/feed/'',
      src_language = ascii ''ru'', src_weight = 8.0, src_category = ascii ''vibe-coding''\<rparr>
   ]"

definition RATING_MIN :: real where "RATING_MIN = 0.0"
definition RATING_MAX :: real where "RATING_MAX = 10.0"

definition WEIGHT_FRESHNESS :: real where "WEIGHT_FRESHNESS = fl64 0.3"
definition WEIGHT_SOURCE :: real where "WEIGHT_SOURCE = 0.25"
definition WEIGHT_KEYWORDS :: real where "WEIGHT_KEYWORDS = 0.25"
definition WEIGHT_LENGTH :: real where "WEIGHT_LENGTH = fl64 0.2"

definition REQUEST_TIMEOUT :: nat where "REQUEST_TIMEOUT = 30"
definition MAX_RETRIES :: nat where "MAX_RETRIES = 3"
definition RETRY_DELAY :: nat where "RETRY_DELAY = 2"

definition TOP_NEWS_COUNT :: nat where "TOP_NEWS_COUNT = 4"
definition DAILY_SEND_TIME :: string where "DAILY_SEND_TIME = ''09:00''"

definition SCHEDULE_INTERVALS :: "string \<rightharpoonup> nat" where
  "SCHEDULE_INTERVALS =
     [''hourly'' \<mapsto> 3600, ''3hours'' \<mapsto> 10800, ''6hours'' \<mapsto> 21600, ''daily'' \<mapsto> 86400]"

text \<open>
  The relevance vocabulary, in the order and with the repetitions of the source. A term
  with Cyrillic letters is written as its list of code points.
\<close>

definition RELEVANCE_KEYWORDS :: "pystr list" where
  "RELEVANCE_KEYWORDS = [
     \<comment> \<open>Vibe Coding / Atmosphere\<close>
     ascii ''vibe coding'',
     [1074, 1072, 1081, 1073, 32, 1082, 1086, 1076, 1080, 1085, 1075],
     ascii ''coding vibe'',
     [1072, 1090, 1084, 1086, 1089, 1092, 1077, 1088, 1072, 32, 1087, 1088, 1086, 1075,
       1088, 1072, 1084, 1084, 1080, 1088, 1086, 1074, 1072, 1085, 1080, 1103],
     \<comment> \<open>Programming / Development (EN/RU)\<close>
     ascii ''programming'',
     [1087, 1088, 1086, 1075, 1088, 1072, 1084, 1084, 1080, 1088, 1086, 1074, 1072, 1085,
       1080, 1077],
     ascii ''coding'',
     [1082, 1086, 1076, 1080, 1085, 1075],
     [1082, 1086, 1076, 1080, 1088, 1086, 1074, 1072, 1085, 1080, 1077],
     ascii ''development'',
     [1088, 1072, 1079, 1088, 1072, 1073, 1086, 1090, 1082, 1072],
     ascii ''software development'',
     [1088, 1072, 1079, 1088, 1072, 1073, 1086, 1090, 1082, 1072, 32, 1089, 1086, 1092,
       1090, 1072],
     ascii ''app development'',
     [1088, 1072, 1079, 1088, 1072, 1073, 1086, 1090, 1082, 1072, 32, 1087, 1088, 1080,
       1083, 1086, 1078, 1077, 1085, 1080, 1081],
     ascii ''web development'',
     [1074, 1077, 1073, 45, 1088, 1072, 1079, 1088, 1072, 1073, 1086, 1090, 1082, 1072],
     ascii ''backend'',
     [1073, 1101, 1082, 1077, 1085, 1076],
     ascii ''backend development'',
     [1088, 1072, 1079, 1088, 1072, 1073, 1086, 1090, 1082, 1072, 32, 1073, 1101, 1082,
       1077, 1085, 1076, 1072],
     ascii ''frontend'',
     [1092, 1088, 1086, 1085, 1090, 1077, 1085, 1076],
     ascii ''frontend development'',
     [1088, 1072, 1079, 1088, 1072, 1073, 1086, 1090, 1082, 1072, 32, 1092, 1088, 1086,
       1085, 1090, 1077, 1085, 1076, 1072],
     ascii ''fullstack'',
     [1092, 1091, 1083, 1089, 1090, 1077, 1082],
     ascii ''fullstack developer'',
     [1092, 1091, 1083, 1089, 1090, 1077, 1082, 32, 1088, 1072, 1079, 1088, 1072, 1073,
       1086, 1090, 1095, 1080, 1082],
     \<comment> \<open>Code / Source Code (EN/RU)\<close>
     ascii ''code'',
     [1082, 1086, 1076],
     ascii ''source code'',
     [1080, 1089, 1093, 1086, 1076, 1085, 1099, 1081, 32, 1082, 1086, 1076],
     ascii ''clean code'',
     [1095, 1080, 1089, 1090, 1099, 1081, 32, 1082, 1086, 1076],
     \<comment> \<open>Developer / Programmer (EN/RU)\<close>
     ascii ''developer'',
     [1088, 1072, 1079, 1088, 1072, 1073, 1086, 1090, 1095, 1080, 1082],
     ascii ''software engineer'',
     [1080, 1085, 1078, 1077, 1085, 1077, 1088, 45, 1087, 1088, 1086, 1075, 1088, 1072,
       1084, 1084, 1080, 1089, 1090],
     ascii ''programmer'',
     [1087, 1088, 1086, 1075, 1088, 1072, 1084, 1084, 1080, 1089, 1090],
     ascii ''fullstack developer'',
     [1092, 1091, 1083, 1089, 1090, 1077, 1082, 32, 1088, 1072, 1079, 1088, 1072, 1073,
       1086, 1090, 1095, 1080, 1082],
     ascii ''ai developer'',
     [1088, 1072, 1079, 1088, 1072, 1073, 1086, 1090, 1095, 1080, 1082, 32, 1080, 1085,
       1090, 1077, 1083, 1083, 1077, 1082, 1090],
     ascii ''machine learning engineer'',
     [1080, 1085, 1078, 1077, 1085, 1077, 1088, 32, 1087, 1086, 32, 1084, 1072, 1096,
       1080, 1085, 1085, 1086, 1084, 1091, 32, 1086, 1073, 1091, 1095, 1077, 1085, 1080,
       1102],
     \<comment> \<open>AI / ML / Neural Networks (EN/RU)\<close>
     ascii ''artificial intelligence'',
     [1080, 1089, 1082, 1091, 1089, 1089, 1090, 1074, 1077, 1085, 1085, 1099, 1081, 32,
       1080, 1085, 1090, 1077, 1083, 1083, 1077, 1082, 1090],
     ascii ''ai'',
     [1080, 1080],
     ascii ''machine learning'',
     [1084, 1072, 1096, 1080, 1085, 1085, 1086, 1077, 32, 1086, 1073, 1091, 1095, 1077,
       1085, 1080, 1077],
     ascii ''neural networks'',
     [1085, 1077, 1081, 1088, 1086, 1085, 1085, 1099, 1077, 32, 1089, 1077, 1090, 1080],
     ascii ''deep learning'',
     [1075, 1083, 1091, 1073, 1086, 1082, 1086, 1077, 32, 1086, 1073, 1091, 1095, 1077,
       1085, 1080, 1077],
     ascii ''ml engineer'',
     [109, 108, 32, 1080, 1085, 1078, 1077, 1085, 1077, 1088],
     ascii ''ai tools'',
     [1080, 1085, 1089, 1090, 1088, 1091, 1084, 1077, 1085, 1090, 1099, 32, 1080, 1080],
     \<comment> \<open>Cursor / IDE / Editor (EN/RU)\<close>
     ascii ''cursor'',
     [1082, 1091, 1088, 1089, 1086, 1088],
     ascii ''cursor ide'',
     [99, 117, 114, 115, 111, 114, 32, 1080, 1076, 1077],
     ascii ''cursor editor'',
     ascii ''editor cursor'',
     [1088, 1077, 1076, 1072, 1082, 1090, 1086, 1088, 32, 99, 117, 114, 115, 111, 114],
     ascii ''integrated development environment'',
     [1080, 1085, 1090, 1077, 1075, 1088, 1080, 1088, 1086, 1074, 1072, 1085, 1085, 1072,
       1103, 32, 1089, 1088, 1077, 1076, 1072, 32, 1088, 1072, 1079, 1088, 1072, 1073,
       1086, 1090, 1082, 1080],
     ascii ''ide'',
     [1089, 1088, 1077, 1076, 1072, 32, 1088, 1072, 1079, 1088, 1072, 1073, 1086, 1090,
       1082, 1080],
     ascii ''text editor'',
     [1090, 1077, 1082, 1089, 1090, 1086, 1074, 1099, 1081, 32, 1088, 1077, 1076, 1072,
       1082, 1090, 1086, 1088],
     \<comment> \<open>Tools / Technologies (EN/RU)\<close>
     ascii ''git'',
     [1075, 1080, 1090],
     ascii ''github'',
     [1075, 1080, 1090, 1093, 1072, 1073],
     ascii ''version control'',
     [1089, 1080, 1089, 1090, 1077, 1084, 1072, 32, 1082, 1086, 1085, 1090, 1088, 1086,
       1083, 1103, 32, 1074, 1077, 1088, 1089, 1080, 1081],
     ascii ''repository'',
     [1088, 1077, 1087, 1086, 1079, 1080, 1090, 1086, 1088, 1080, 1081],
     ascii ''command line'',
     [1082, 1086, 1084, 1072, 1085, 1076, 1085, 1072, 1103, 32, 1089, 1090, 1088, 1086,
       1082, 1072],
     ascii ''terminal'',
     [1090, 1077, 1088, 1084, 1080, 1085, 1072, 1083],
     \<comment> \<open>Frameworks / Languages (EN/RU)\<close>
     ascii ''python'',
     [1087, 1080, 1090, 1086, 1085],
     ascii ''javascript'',
     [1076, 1078, 1072, 1074, 1072, 1089, 1082, 1088, 1080, 1087, 1090],
     ascii ''typescript'',
     [1090, 1072, 1081, 1087, 1089, 1082, 1088, 1080, 1087, 1090],
     ascii ''java'',
     [1103, 1074, 1072],
     ascii ''c++'',
     [1089, 1080, 32, 1087, 1083, 1102, 1089, 32, 1087, 1083, 1102, 1089],
     ascii ''c#'',
     [1089, 1080, 32, 1096, 1072, 1088, 1087],
     ascii ''go'',
     [1075, 1086],
     ascii ''rust'',
     [1088, 1072, 1089, 1090],
     ascii ''sql'',
     [1089, 1082, 1100, 1102, 1101, 1083, 1100],
     \<comment> \<open>Classic Key Terms (EN/RU)\<close>
     ascii ''algorithm'',
     [1072, 1083, 1075, 1086, 1088, 1080, 1090, 1084],
     ascii ''data structure'',
     [1089, 1090, 1088, 1091, 1082, 1090, 1091, 1088, 1072, 32, 1076, 1072, 1085, 1085,
       1099, 1093],
     ascii ''function'',
     [1092, 1091, 1085, 1082, 1094, 1080, 1103],
     ascii ''variable'',
     [1087, 1077, 1088, 1077, 1084, 1077, 1085, 1085, 1072, 1103],
     ascii ''loop'',
     [1094, 1080, 1082, 1083],
     ascii ''debug'',
     [1086, 1090, 1083, 1072, 1076, 1082, 1072],
     ascii ''refactor'',
     [1088, 1077, 1092, 1072, 1082, 1090, 1086, 1088, 1080, 1085, 1075],
     ascii ''pull request'',
     [1087, 1091, 1083, 1083, 45, 1088, 1077, 1082, 1074, 1077, 1089, 1090],
     ascii ''commit'',
     [1082, 1086, 1084, 1084, 1080, 1090],
     ascii ''deploy'',
     [1076, 1077, 1087, 1083, 1086, 1081],
     ascii ''cloud'',
     [1086, 1073, 1083, 1072, 1082, 1086],
     \<comment> \<open>Community, Trends\<close>
     ascii ''open source'',
     [1086, 1087, 1077, 1085, 1089, 1086, 1088, 1089],
     ascii ''stack overflow'',
     [1089, 1090, 1101, 1082, 32, 1086, 1074, 1077, 1088, 1092, 1083, 1086, 1091],
     ascii ''best practice'',
     [1083, 1091, 1095, 1096, 1080, 1077, 32, 1087, 1088, 1072, 1082, 1090, 1080, 1082,
       1080]
   ]"

section \<open>Ranking (parser/ranking.py)\<close>

subsection \<open>Library functions on strings\<close>

text \<open>
  The Unicode tables of Python are the library's. For the two blocks that the
  vocabulary is written in, Basic Latin and the Cyrillic letters U+0400 to U+045F, they
  are written out here; for every other code point they are the parameter \<open>U\<close>:
  \<open>isalnum U c\<close> is \<open>chr(c).isalnum()\<close> and \<open>str_lower U s\<close> is \<open>s.lower()\<close>.
\<close>

record unicode =
  isalnum :: "nat \<Rightarrow> bool"
  str_lower :: "pystr \<Rightarrow> pystr"

definition in_blocks :: "nat \<Rightarrow> bool" where
  "in_blocks c \<longleftrightarrow> c < 128 \<or> (1024 \<le> c \<and> c \<le> 1119)"

definition lower_cp :: "nat \<Rightarrow> nat" where
  "lower_cp c =
     (if 65 \<le> c \<and> c \<le> 90 then c + 32
      else if 1040 \<le> c \<and> c \<le> 1071 then c + 32
      else if 1024 \<le> c \<and> c \<le> 1039 then c + 80
      else c)"

text \<open>
  \<open>str.lower\<close>: on a string of the two blocks it maps every character by itself.
\<close>

definition lower :: "unicode \<Rightarrow> pystr \<Rightarrow> pystr" where
  "lower U s = (if list_all in_blocks s then map lower_cp s else str_lower U s)"

text \<open>
  The class \<open>\w\<close> of the \<open>re\<close> module on a \<open>str\<close> pattern: the alphanumeric
  characters and the underscore.
\<close>

definition word_char :: "unicode \<Rightarrow> nat \<Rightarrow> bool" where
  "word_char U c \<longleftrightarrow>
     (if c < 128
      then (48 \<le> c \<and> c \<le> 57) \<or> (65 \<le> c \<and> c \<le> 90) \<or> c = 95 \<or> (97 \<le> c \<and> c \<le> 122)
      else if 1024 \<le> c \<and> c \<le> 1119 then True
      else isalnum U c)"

text \<open>
  The assertion \<open>\b\<close> between the character in front of a position and the one behind it,
  \<open>None\<close> at either end of the text: exactly one of the two is a word character.
\<close>

fun is_word :: "unicode \<Rightarrow> nat option \<Rightarrow> bool" where
  "is_word U None = False"
| "is_word U (Some c) = word_char U c"

definition boundary :: "unicode \<Rightarrow> nat option \<Rightarrow> nat option \<Rightarrow> bool" where
  "boundary U prev next \<longleftrightarrow> is_word U prev \<noteq> is_word U next"

fun first_cp :: "pystr \<Rightarrow> nat option" where
  "first_cp [] = None"
| "first_cp (c # cs) = Some c"

text \<open>
  The pattern \<open>r'\b' + re.escape(kw) + r'\b'\<close> at one position: \<open>prev\<close> is the
  character in front of the position and \<open>rest\<close> the text from it on. \<open>re.escape\<close>
  makes the pattern match the characters of \<open>kw\<close> themselves.
\<close>

definition match_here :: "unicode \<Rightarrow> pystr \<Rightarrow> nat option \<Rightarrow> pystr \<Rightarrow> bool" where
  "match_here U kw prev rest \<longleftrightarrow>
     boundary U prev (first_cp rest) \<and>
     take (length kw) rest = kw \<and>
     boundary U (if kw = [] then prev else Some (last kw))
              (first_cp (drop (length kw) rest))"

text \<open>
  \<open>len(re.findall(pattern, text))\<close>: the matches are found from left to right and do
  not overlap; the search goes on behind the end of a match.
\<close>

function findall_count :: "unicode \<Rightarrow> pystr \<Rightarrow> nat option \<Rightarrow> pystr \<Rightarrow> nat" where
  "findall_count U kw prev [] = (if match_here U kw prev [] then 1 else 0)"
| "findall_count U kw prev (c # cs) =
     (if match_here U kw prev (c # cs) \<and> kw \<noteq> []
      then 1 + findall_count U kw (Some (last kw)) (drop (length kw) (c # cs))
      else (if match_here U kw prev (c # cs) then 1 else 0) + findall_count U kw (Some c) cs)"
  by pat_completeness auto
termination
  by (relation "measure (\<lambda>(U, kw, prev, text). length text)") auto

subsection \<open>The components of the rating\<close>

definition timedelta_hours :: "int \<Rightarrow> int" where
  "timedelta_hours h = h * 3600000000"

definition timedelta_days :: "int \<Rightarrow> int" where
  "timedelta_days d = d * 86400000000"

text \<open>
  \<open>_calculate_freshness_score\<close>; \<open>now\<close> is the reading of \<open>datetime.now()\<close>, a naive
  local time. \<open>replace(tzinfo=None)\<close> keeps the wall-clock fields.
\<close>

definition calculate_freshness_score :: "int \<Rightarrow> datetime \<Rightarrow> real" where
  "calculate_freshness_score now pub_at =
     (let pub_at = (if tzinfo pub_at \<noteq> None then pub_at\<lparr>tzinfo := None\<rparr> else pub_at);
          age = now - wall pub_at
      in if age < timedelta_hours 1 then 1.0
         else if age < timedelta_hours 3 then fl64 0.9
         else if age < timedelta_hours 6 then fl64 0.7
         else if age < timedelta_hours 12 then 0.5
         else if age < timedelta_days 1 then fl64 0.3
         else fl64 0.1)"

text \<open>\<open>RankingEngine.__init__\<close>: in a dict comprehension a later entry replaces an earlier one.\<close>

definition source_weights_of :: "rss_source list \<Rightarrow> (pystr \<rightharpoonup> real)" where
  "source_weights_of sources = map_of (rev (map (\<lambda>s. (src_name s, src_weight s)) sources))"

definition calculate_source_score :: "(pystr \<rightharpoonup> real) \<Rightarrow> pystr \<Rightarrow> real" where
  "calculate_source_score source_weights src =
     (let weight = (case source_weights src of None \<Rightarrow> 5.0 | Some w \<Rightarrow> w)
      in float_div weight 10.0)"

definition keyword_count :: "unicode \<Rightarrow> pystr \<Rightarrow> nat" where
  "keyword_count U text =
     foldl (\<lambda>count keyword. count + findall_count U (lower U keyword) None text) 0
       RELEVANCE_KEYWORDS"

definition calculate_keyword_score :: "unicode \<Rightarrow> pystr \<Rightarrow> pystr \<Rightarrow> real" where
  "calculate_keyword_score U ttl descr =
     (let text = lower U (ttl @ ascii '' '' @ descr)
      in min 1.0 (float_div (float_of_int (int (keyword_count U text))) 5.0))"

definition calculate_length_score :: "int \<Rightarrow> real" where
  "calculate_length_score article_length =
     (if article_length = 0 then 0.5
      else if 500 \<le> article_length \<and> article_length \<le> 2000 then 1.0
      else if 300 \<le> article_length \<and> article_length < 500 then fl64 0.8
      else if 2000 < article_length \<and> article_length \<le> 3000 then fl64 0.8
      else if 100 \<le> article_length \<and> article_length < 300 then 0.5
      else fl64 0.3)"

text \<open>
  \<open>calculate_rating\<close>: the sum is taken from the left, and every product and every sum
  is rounded to a double.
\<close>

definition calculate_rating ::
  "unicode \<Rightarrow> (pystr \<rightharpoonup> real) \<Rightarrow> int \<Rightarrow> News \<Rightarrow> int \<Rightarrow> real" where
  "calculate_rating U source_weights now news article_length =
     (let freshness_score = calculate_freshness_score now (published_at news);
          source_score = calculate_source_score source_weights (source news);
          keyword_score = calculate_keyword_score U (title news) (description news);
          length_score = calculate_length_score article_length;
          total_score =
            float_add
              (float_add
                (float_add (float_mul freshness_score WEIGHT_FRESHNESS)
                           (float_mul source_score WEIGHT_SOURCE))
                (float_mul keyword_score WEIGHT_KEYWORDS))
              (float_mul length_score WEIGHT_LENGTH);
          rating = max RATING_MIN (min RATING_MAX (float_mul total_score RATING_MAX))
      in round2 rating)"

subsection \<open>The rating is a clamped, rounded weighted sum\<close>

text \<open>
  C2. \<open>calculate_rating\<close> is a function of the engine's source weights, the reading of
  the clock, the entry and the article length, and of nothing else; of the entry it reads
  the publication time, the source, the title and the description only. Its value is the
  weighted sum of the four components with the weights 0.3, 0.25, 0.25 and 0.2, in
  float arithmetic, times 10.0, clamped to the interval from 0 to 10 and rounded to two
  decimals: it is the double nearest to a multiple of 0.01 that is at most 0.005 away
  from the clamped value. It lies between 0 and 10.
\<close>

theorem calculate_rating_spec:
  fixes n :: News and U :: unicode and sw :: "pystr \<rightharpoonup> real" and now len :: int
    and weighted_sum clamped :: real
  defines "weighted_sum \<equiv>
      float_add
        (float_add
          (float_add (float_mul (calculate_freshness_score now (published_at n)) (fl64 0.3))
                     (float_mul (calculate_source_score sw (source n)) 0.25))
          (float_mul (calculate_keyword_score U (title n) (description n)) 0.25))
        (float_mul (calculate_length_score len) (fl64 0.2))"
    and "clamped \<equiv> max 0 (min 10 (float_mul weighted_sum 10.0))"
  shows "calculate_rating U sw now n len = round2 clamped \<and>
         (\<exists>k :: int. calculate_rating U sw now n len = fl64 (of_int k / 100) \<and>
                     \<bar>of_int k / 100 - clamped\<bar> \<le> 0.005) \<and>
         0 \<le> calculate_rating U sw now n len \<and> calculate_rating U sw now n len \<le> 10 \<and>
         calculate_rating U sw now
           (n\<lparr>link := l, language := lg, rating := r, parsed_at := p, content_hash := h,
              id_news := i\<rparr>) len = calculate_rating U sw now n len"
proof -
  have eq: "calculate_rating U sw now n len = round2 clamped"
    by (simp add: calculate_rating_def Let_def clamped_def weighted_sum_def
        WEIGHT_FRESHNESS_def WEIGHT_SOURCE_def WEIGHT_KEYWORDS_def WEIGHT_LENGTH_def
        RATING_MIN_def RATING_MAX_def)
  have cl: "0 \<le> clamped" "clamped \<le> 10"
    by (simp_all add: clamped_def)
  have decimal: "\<exists>k :: int. round2 clamped = fl64 (of_int k / 100) \<and>
      \<bar>of_int k / 100 - clamped\<bar> \<le> 0.005"
    using round2_decimal [of clamped] by simp
  have other: "calculate_rating U sw now
      (n\<lparr>link := l, language := lg, rating := r, parsed_at := p, content_hash := h,
         id_news := i\<rparr>) len = calculate_rating U sw now n len"
    by (simp add: calculate_rating_def)
  from eq decimal round2_range [OF cl] other show ?thesis
    by simp
qed

subsection \<open>Freshness\<close>

text \<open>
  The order of Python on \<open>datetime\<close> values: two naive values compare by their wall
  clocks, two aware values by their instants (wall clock minus UTC offset), and a naive
  and an aware value do not compare.
\<close>

definition datetime_gt :: "datetime \<Rightarrow> datetime \<Rightarrow> py_error + bool" where
  "datetime_gt a b =
     (case (tzinfo a, tzinfo b) of
        (None, None) \<Rightarrow> Inr (wall b < wall a)
      | (Some oa, Some ob) \<Rightarrow> Inr (wall b - ob < wall a - oa)
      | _ \<Rightarrow> Inl TypeError)"

text \<open>
  C5, as stated, fails when the two timestamps carry different UTC offsets. At 14:00,
  an entry published at 12:00 with offset +00:00 is strictly more recent than one
  published at 13:30 with offset +05:00 (08:30 UTC), and it scores 0.9 against 1.0: the
  offsets are dropped, not converted.
\<close>

theorem freshness_monotonicity_counterexample:
  "datetime_gt \<lparr>wall = timedelta_hours 12, tzinfo = Some 0\<rparr>
               \<lparr>wall = timedelta_hours 13 + 1800000000, tzinfo = Some (timedelta_hours 5)\<rparr>
     = Inr True \<and>
   calculate_freshness_score (timedelta_hours 14)
     \<lparr>wall = timedelta_hours 12, tzinfo = Some 0\<rparr> = fl64 0.9 \<and>
   calculate_freshness_score (timedelta_hours 14)
     \<lparr>wall = timedelta_hours 13 + 1800000000, tzinfo = Some (timedelta_hours 5)\<rparr> = 1.0 \<and>
   calculate_freshness_score (timedelta_hours 14)
     \<lparr>wall = timedelta_hours 12, tzinfo = Some 0\<rparr>
   < calculate_freshness_score (timedelta_hours 14)
     \<lparr>wall = timedelta_hours 13 + 1800000000, tzinfo = Some (timedelta_hours 5)\<rparr>"
  by (simp add: datetime_gt_def calculate_freshness_score_def timedelta_hours_def
      timedelta_days_def Let_def fl64_decimals)

text \<open>
  C5, amended. For a fixed reading of the clock, of two entries the one whose
  \<open>published_at\<close> is the later when both are read as naive wall-clock times, any offset
  dropped, never receives the lower freshness component. For two naive timestamps, and
  for two timestamps with the same offset, this is the order of Python on them.
\<close>

theorem freshness_monotone:
  assumes "wall (published_at b) < wall (published_at a) \<or>
           (tzinfo (published_at a) = tzinfo (published_at b) \<and>
            datetime_gt (published_at a) (published_at b) = Inr True)"
  shows "calculate_freshness_score now (published_at b)
         \<le> calculate_freshness_score now (published_at a)"
proof -
  have "wall (published_at b) < wall (published_at a)"
    using assms by (auto simp: datetime_gt_def split: option.splits)
  then show ?thesis
    by (simp add: calculate_freshness_score_def Let_def timedelta_hours_def timedelta_days_def
        fl64_decimals)
qed

theorem freshness_monotone_witness:
  "calculate_freshness_score (timedelta_hours 14)
     (published_at \<lparr>title = ascii ''t'', link = ascii ''l'', description = ascii ''d'',
        source = ascii ''Habr'',
        published_at = \<lparr>wall = timedelta_hours 12, tzinfo = Some 0\<rparr>,
        language = ascii ''ru'', rating = 0, parsed_at = None, content_hash = None,
        id_news = None\<rparr>)
   \<le> calculate_freshness_score (timedelta_hours 14)
     (published_at \<lparr>title = ascii ''t'', link = ascii ''l'', description = ascii ''d'',
        source = ascii ''Habr'',
        published_at = \<lparr>wall = timedelta_hours 13, tzinfo = Some (timedelta_hours 5)\<rparr>,
        language = ascii ''ru'', rating = 0, parsed_at = None, content_hash = None,
        id_news = None\<rparr>)"
  by (rule freshness_monotone) (simp add: timedelta_hours_def)

subsection \<open>Keywords\<close>

text \<open>
  The count of the specification, in its words: a whole-word match of a term is an
  occurrence of the term in the text with no word character directly in front of it and
  none directly behind it. The matches of all terms of the vocabulary are counted.
\<close>

definition whole_word_here :: "unicode \<Rightarrow> pystr \<Rightarrow> nat option \<Rightarrow> pystr \<Rightarrow> bool" where
  "whole_word_here U kw prev rest \<longleftrightarrow>
     take (length kw) rest = kw \<and> \<not> is_word U prev \<and>
     \<not> is_word U (first_cp (drop (length kw) rest))"

fun whole_word_occurrences :: "unicode \<Rightarrow> pystr \<Rightarrow> nat option \<Rightarrow> pystr \<Rightarrow> nat" where
  "whole_word_occurrences U kw prev [] = 0"
| "whole_word_occurrences U kw prev (c # cs) =
     (if whole_word_here U kw prev (c # cs) then 1 else 0) +
     whole_word_occurrences U kw (Some c) cs"

definition spec_keyword_count :: "unicode \<Rightarrow> pystr \<Rightarrow> nat" where
  "spec_keyword_count U text =
     sum_list (map (\<lambda>kw. whole_word_occurrences U kw None text)
                (map (lower U) RELEVANCE_KEYWORDS))"

lemma lower_keywords: "map (lower U) RELEVANCE_KEYWORDS = RELEVANCE_KEYWORDS"
  by (simp add: RELEVANCE_KEYWORDS_def lower_def lower_cp_def in_blocks_def ascii_def)

lemma keyword_count_sum:
  "keyword_count U text =
     sum_list (map (\<lambda>kw. findall_count U kw None text) (map (lower U) RELEVANCE_KEYWORDS))"
proof -
  have "foldl (\<lambda>count keyword. count + findall_count U (lower U keyword) None text) a ks
        = a + sum_list (map (\<lambda>kw. findall_count U kw None text) (map (lower U) ks))" for a ks
    by (induction ks arbitrary: a) simp_all
  then show ?thesis
    by (simp add: keyword_count_def)
qed

text \<open>
  The component is \<open>min(1.0, keyword_count / 5.0)\<close>, the quotient taken in float
  arithmetic: it is 1.0 from five matches on and 0.0 for none.
\<close>

lemma keyword_score_saturates:
  "calculate_keyword_score U ttl descr =
     min 1 (float_div (float_of_int (int (keyword_count U (lower U (ttl @ ascii '' '' @ descr)))))
              5)"
  "5 \<le> keyword_count U (lower U (ttl @ ascii '' '' @ descr)) \<Longrightarrow>
     calculate_keyword_score U ttl descr = 1"
  "keyword_count U (lower U (ttl @ ascii '' '' @ descr)) = 0 \<Longrightarrow>
     calculate_keyword_score U ttl descr = 0"
proof -
  let ?count = "keyword_count U (lower U (ttl @ ascii '' '' @ descr))"
  show eq: "calculate_keyword_score U ttl descr =
      min 1 (float_div (float_of_int (int ?count)) 5)"
    by (simp add: calculate_keyword_score_def Let_def)
  show "calculate_keyword_score U ttl descr = 1" if "5 \<le> ?count"
  proof -
    have "of_int 5 * 2 powi 0 \<le> real_of_int (int ?count)"
      using that by simp
    then have "of_int 5 * 2 powi 0 \<le> fl64 (real_of_int (int ?count))"
      by (intro fl64_ge_dyadic) simp_all
    then have "of_int 1 * 2 powi 0 \<le> fl64 (real_of_int (int ?count)) / 5"
      by simp
    then have "of_int 1 * 2 powi 0 \<le> fl64 (fl64 (real_of_int (int ?count)) / 5)"
      by (intro fl64_ge_dyadic) simp_all
    then show ?thesis
      unfolding eq by (simp add: float_div_def float_of_int_def)
  qed
  show "calculate_keyword_score U ttl descr = 0" if "?count = 0"
    unfolding eq using that by (simp add: float_div_def float_of_int_def fl64_zero)
qed

text \<open>Rules that step through a text one character at a time.\<close>

lemma findall_count_skip:
  "k \<noteq> c \<Longrightarrow>
   findall_count U (k # ks) prev (c # cs) = findall_count U (k # ks) (Some c) cs"
  by (simp add: match_here_def)

lemma findall_count_hit:
  "findall_count U (c # ks) prev (c # cs) =
     (if match_here U (c # ks) prev (c # cs)
      then 1 + findall_count U (c # ks) (Some (last (c # ks))) (drop (length ks) cs)
      else findall_count U (c # ks) (Some c) cs)"
  by simp

lemma whole_word_occurrences_skip:
  "k \<noteq> c \<Longrightarrow>
   whole_word_occurrences U (k # ks) prev (c # cs) =
     whole_word_occurrences U (k # ks) (Some c) cs"
  by (simp add: whole_word_here_def)

lemma whole_word_occurrences_hit:
  "whole_word_occurrences U (c # ks) prev (c # cs) =
     (if whole_word_here U (c # ks) prev (c # cs) then 1 else 0) +
     whole_word_occurrences U (c # ks) (Some c) cs"
  by simp

lemmas eval_text = RELEVANCE_KEYWORDS_def lower_def lower_cp_def in_blocks_def ascii_def
  findall_count_skip findall_count_hit whole_word_occurrences_skip whole_word_occurrences_hit
  match_here_def whole_word_here_def boundary_def word_char_def

lemma keyword_count_example:
  "keyword_count U (lower U (ascii ''New AI Coding Tool'' @ ascii '' '' @ [])) = 2"
  "spec_keyword_count U (lower U (ascii ''New AI Coding Tool'' @ ascii '' '' @ [])) = 2"
  unfolding keyword_count_sum spec_keyword_count_def lower_keywords
  by (simp_all add: eval_text del: findall_count.simps(2) whole_word_occurrences.simps(2))

lemma keyword_count_cpp:
  "keyword_count U
     (lower U (ascii ''C++ vs C#'' @ ascii '' '' @ ascii ''C++, C# and C++'')) = 0"
  unfolding keyword_count_sum lower_keywords
  by (simp add: eval_text del: findall_count.simps(2) whole_word_occurrences.simps(2))

lemma spec_keyword_count_cpp:
  "spec_keyword_count U
     (lower U (ascii ''C++ vs C#'' @ ascii '' '' @ ascii ''C++, C# and C++'')) = 5"
  unfolding spec_keyword_count_def lower_keywords
  by (simp add: eval_text del: findall_count.simps(2) whole_word_occurrences.simps(2))

text \<open>
  C6. The keyword component is \<open>min(1.0, count / 5.0)\<close> for the count of the regular
  expression (\<open>keyword_score_saturates\<close>), and that count is not the number of whole-word
  matches: behind a term that ends in a character that is no word character, as
  \<open>c++\<close> and \<open>c#\<close> do, the closing \<open>\b\<close> asks for a word character. The title
  \<open>C++ vs C#\<close> with the summary \<open>C++, C# and C++\<close> holds five whole-word matches of
  the vocabulary; the code counts none and gives the component 0, not 1.
\<close>

theorem keyword_score_misses_cpp:
  "spec_keyword_count U
     (lower U (ascii ''C++ vs C#'' @ ascii '' '' @ ascii ''C++, C# and C++'')) = 5 \<and>
   keyword_count U
     (lower U (ascii ''C++ vs C#'' @ ascii '' '' @ ascii ''C++, C# and C++'')) = 0 \<and>
   calculate_keyword_score U (ascii ''C++ vs C#'') (ascii ''C++, C# and C++'') = 0"
  by (simp only: keyword_score_saturates(3) keyword_count_cpp spec_keyword_count_cpp)

subsection \<open>Ratings that sit on a tie of the rounding\<close>

lemma keyword_count_weather:
  "keyword_count U (lower U (ascii ''Weather report'' @ ascii '' '' @ [])) = 0"
  unfolding keyword_count_sum lower_keywords
  by (simp add: eval_text del: findall_count.simps(2) whole_word_occurrences.simps(2))

text \<open>
  An entry of the source Dev.to, of weight 8.5, that is two hours old, holds no term of
  the vocabulary and has no known length: in exact arithmetic the weighted sum times
  ten is 5.825, halfway between two multiples of 0.01. The float that the code rounds lies
  above 5.825, and the rating is 5.83.
\<close>

lemma calculate_rating_tie:
  "calculate_rating U (source_weights_of RSS_SOURCES) (timedelta_hours 14)
     \<lparr>title = ascii ''Weather report'', link = ascii ''w'', description = [],
      source = ascii ''Dev.to'',
      published_at = \<lparr>wall = timedelta_hours 12, tzinfo = None\<rparr>,
      language = ascii ''en'', rating = 0, parsed_at = None, content_hash = None,
      id_news = None\<rparr> 0
   = fl64 5.83"
proof -
  have fresh: "calculate_freshness_score (timedelta_hours 14)
        \<lparr>wall = timedelta_hours 12, tzinfo = None\<rparr> = 8106479329266893 / 2 ^ 53"
    by (simp add: calculate_freshness_score_def Let_def timedelta_hours_def timedelta_days_def
        fl64_decimals)
  have src: "calculate_source_score (source_weights_of RSS_SOURCES) (ascii ''Dev.to'')
      = 7656119366529843 / 2 ^ 53"
    by (simp add: calculate_source_score_def source_weights_of_def RSS_SOURCES_def ascii_def
        float_div_def)
      (subst fl64_eval [where e = "- 1"],
        simp_all add: round_half_even_def Let_def power_int_minus)
  have kw: "calculate_keyword_score U (ascii ''Weather report'') [] = 0"
    by (rule keyword_score_saturates(3)) (rule keyword_count_weather)
  have len: "calculate_length_score 0 = 0.5"
    by (simp add: calculate_length_score_def fl64_decimals)
  have p1: "float_mul (8106479329266893 / 2 ^ 53) WEIGHT_FRESHNESS
      = 607985949695017 / 2 ^ 51"
    unfolding float_mul_def WEIGHT_FRESHNESS_def fl64_decimals
    by (subst fl64_eval [where e = "- 2"])
      (simp_all add: round_half_even_def Let_def power_int_minus)
  have p2: "float_mul (7656119366529843 / 2 ^ 53) WEIGHT_SOURCE = 7656119366529843 / 2 ^ 55"
    unfolding float_mul_def WEIGHT_SOURCE_def
    by (subst fl64_eval [where e = "- 3"])
      (simp_all add: round_half_even_def Let_def power_int_minus)
  have p3: "float_mul 0 WEIGHT_KEYWORDS = 0"
    by (simp add: float_mul_def WEIGHT_KEYWORDS_def fl64_zero)
  have p4: "float_mul 0.5 WEIGHT_LENGTH = 3602879701896397 / 2 ^ 55"
    unfolding float_mul_def WEIGHT_LENGTH_def fl64_decimals
    by (subst fl64_eval [where e = "- 4"])
      (simp_all add: round_half_even_def Let_def power_int_minus)
  have a1: "float_add (607985949695017 / 2 ^ 51) (7656119366529843 / 2 ^ 55)
      = 4345973640412529 / 2 ^ 53"
    unfolding float_add_def
    by (subst fl64_eval [where e = "- 2"])
      (simp_all add: round_half_even_def Let_def power_int_minus)
  have a2: "float_add (4345973640412529 / 2 ^ 53) 0 = 4345973640412529 / 2 ^ 53"
    unfolding float_add_def
    by (subst fl64_eval [where e = "- 2"])
      (simp_all add: round_half_even_def Let_def power_int_minus)
  have a3: "float_add (4345973640412529 / 2 ^ 53) (3602879701896397 / 2 ^ 55)
      = 1311673391471657 / 2 ^ 51"
    unfolding float_add_def
    by (subst fl64_eval [where e = "- 1"])
      (simp_all add: round_half_even_def Let_def power_int_minus)
  have t: "float_mul (1311673391471657 / 2 ^ 51) RATING_MAX = 6558366957358285 / 2 ^ 50"
    unfolding float_mul_def RATING_MAX_def
    by (subst fl64_eval [where e = 2])
      (simp_all add: round_half_even_def Let_def power_int_minus)
  have clamp: "max RATING_MIN (min RATING_MAX (6558366957358285 / 2 ^ 50))
      = 6558366957358285 / 2 ^ 50"
    by (simp add: RATING_MIN_def RATING_MAX_def)
  have rnd: "round2 (6558366957358285 / 2 ^ 50) = fl64 5.83"
    by (simp add: round2_def round_half_even_def Let_def)
  show ?thesis
    by (simp only: calculate_rating_def Let_def News.select_convs
        fresh src kw len p1 p2 p3 p4 a1 a2 a3 t clamp rnd)
qed

subsection \<open>Ranking a list\<close>

text \<open>
  \<open>sorted(xs, key=key, reverse=True)\<close>: the sort of Python is stable, also with
  \<open>reverse=True\<close>. It is modelled by the insertion sort that puts an element in front
  of the first later element whose key is not greater; a stable sort has one possible
  result, this one.
\<close>

fun insert_desc :: "('a \<Rightarrow> real) \<Rightarrow> 'a \<Rightarrow> 'a list \<Rightarrow> 'a list" where
  "insert_desc key x [] = [x]"
| "insert_desc key x (y # ys) =
     (if key y \<le> key x then x # y # ys else y # insert_desc key x ys)"

definition sorted_reverse :: "('a \<Rightarrow> real) \<Rightarrow> 'a list \<Rightarrow> 'a list" where
  "sorted_reverse key xs = foldr (insert_desc key) xs []"

text \<open>
  The loop of \<open>rank_news_list\<close> that sets \<open>news.rating\<close>. Every call of
  \<open>calculate_rating\<close> reads the clock once: \<open>clock i\<close> is the reading for the entry at
  position \<open>i\<close>. The entries of the list are distinct objects, as \<open>parse_feed_content\<close>
  builds them.
\<close>

fun rate_news ::
  "unicode \<Rightarrow> (pystr \<rightharpoonup> real) \<Rightarrow> (nat \<Rightarrow> int) \<Rightarrow> (pystr \<rightharpoonup> int) \<Rightarrow> nat \<Rightarrow> News list \<Rightarrow>
   News list" where
  "rate_news U sw clock article_lengths i [] = []"
| "rate_news U sw clock article_lengths i (news # rest) =
     news\<lparr>rating := calculate_rating U sw (clock i) news
                  (case article_lengths (link news) of None \<Rightarrow> 0 | Some l \<Rightarrow> l)\<rparr>
     # rate_news U sw clock article_lengths (Suc i) rest"

definition rank_news_list ::
  "unicode \<Rightarrow> (pystr \<rightharpoonup> real) \<Rightarrow> (nat \<Rightarrow> int) \<Rightarrow> News list \<Rightarrow> (pystr \<rightharpoonup> int) option \<Rightarrow>
   News list" where
  "rank_news_list U sw clock news_list article_lengths =
     (let article_lengths = (case article_lengths of None \<Rightarrow> Map.empty | Some d \<Rightarrow> d);
          rated = rate_news U sw clock article_lengths 0 news_list
      in sorted_reverse rating rated)"

lemma mset_insert_desc: "mset (insert_desc key x xs) = add_mset x (mset xs)"
  by (induction xs) simp_all

lemma mset_sorted_reverse: "mset (sorted_reverse key xs) = mset xs"
  by (induction xs) (simp_all add: sorted_reverse_def mset_insert_desc)

lemma set_insert_desc: "set (insert_desc key x xs) = insert x (set xs)"
  by (induction xs) auto

lemma descending_insert_desc:
  "sorted_wrt (\<lambda>a b. key b \<le> key a) xs \<Longrightarrow>
   sorted_wrt (\<lambda>a b. key b \<le> key a) (insert_desc key x xs)"
proof (induction xs)
  case Nil
  show ?case by simp
next
  case (Cons y ys)
  show ?case
  proof (cases "key y \<le> key x")
    case True
    with Cons.prems show ?thesis by auto
  next
    case False
    with Cons show ?thesis by (auto simp: set_insert_desc)
  qed
qed

lemma descending_sorted_reverse: "sorted_wrt (\<lambda>a b. key b \<le> key a) (sorted_reverse key xs)"
proof (induction xs)
  case Nil
  show ?case by (simp add: sorted_reverse_def)
next
  case (Cons x xs)
  then show ?case
    using descending_insert_desc [of key "sorted_reverse key xs" x]
    by (simp add: sorted_reverse_def)
qed

lemma filter_insert_desc:
  "filter (\<lambda>y. key y = k) (insert_desc key x xs) =
     (if key x = k then x # filter (\<lambda>y. key y = k) xs else filter (\<lambda>y. key y = k) xs)"
  by (induction xs) auto

lemma stable_sorted_reverse:
  "filter (\<lambda>y. key y = k) (sorted_reverse key xs) = filter (\<lambda>y. key y = k) xs"
  by (induction xs) (simp_all add: sorted_reverse_def filter_insert_desc)

lemma length_sorted_reverse: "length (sorted_reverse key xs) = length xs"
  using mset_sorted_reverse [of key xs] by (metis size_mset)

text \<open>
  What the loop leaves: at every position \<open>j\<close> the entry of the input with its rating
  set to \<open>calculate_rating\<close> of that entry, at the clock reading \<open>clock j\<close> and with
  the length that \<open>article_lengths\<close> holds for its link, 0 when it holds none.
\<close>

lemma rate_news_map:
  "rate_news U sw clock al i xs =
     map (\<lambda>j. (xs ! (j - i))\<lparr>rating := calculate_rating U sw (clock j) (xs ! (j - i))
            (case al (link (xs ! (j - i))) of None \<Rightarrow> 0 | Some l \<Rightarrow> l)\<rparr>)
       [i..<i + length xs]"
proof (induction xs arbitrary: i)
  case Nil
  show ?case by simp
next
  case (Cons x xs)
  have eq: "i + length (x # xs) = Suc i + length xs"
    by simp
  have upt: "[i..<Suc i + length xs] = i # [Suc i..<Suc i + length xs]"
    by (rule upt_conv_Cons) simp
  have rest: "map (\<lambda>j. ((x # xs) ! (j - i))\<lparr>rating :=
             calculate_rating U sw (clock j) ((x # xs) ! (j - i))
               (case al (link ((x # xs) ! (j - i))) of None \<Rightarrow> 0 | Some l \<Rightarrow> l)\<rparr>)
          [Suc i..<Suc i + length xs]
        = map (\<lambda>j. (xs ! (j - Suc i))\<lparr>rating :=
             calculate_rating U sw (clock j) (xs ! (j - Suc i))
               (case al (link (xs ! (j - Suc i))) of None \<Rightarrow> 0 | Some l \<Rightarrow> l)\<rparr>)
          [Suc i..<Suc i + length xs]"
    by (rule map_cong) (auto simp: nth_Cons')
  show ?case
    unfolding eq upt
    by (simp only: rate_news.simps list.map rest Cons.IH diff_self_eq_0 nth_Cons_0)
qed

lemma length_rate_news: "length (rate_news U sw clk lengths i news_list) = length news_list"
  by (induction news_list arbitrary: i) simp_all

lemma rate_news_entries:
  "map (\<lambda>n. n\<lparr>rating := 0\<rparr>) (rate_news U sw clock al i xs) = map (\<lambda>n. n\<lparr>rating := 0\<rparr>) xs"
  by (induction xs arbitrary: i) simp_all

text \<open>
  Two entries of the source Dev.to, both four hours old: the first holds two terms of
  the vocabulary and has no known length, the second holds none and has 1000 words. In
  exact arithmetic both weighted sums times ten are 6.225; the floats of the code differ,
  the ratings are 6.22 and 6.23, and the ranking puts the second entry first.
\<close>

lemma calculate_rating_two_keywords:
  "calculate_rating U (source_weights_of RSS_SOURCES) (timedelta_hours 14)
     \<lparr>title = ascii ''New AI Coding Tool'', link = ascii ''a'', description = [],
      source = ascii ''Dev.to'',
      published_at = \<lparr>wall = timedelta_hours 10, tzinfo = None\<rparr>,
      language = ascii ''en'', rating = 0, parsed_at = None, content_hash = None,
      id_news = None\<rparr> 0
   = fl64 6.22"
proof -
  have fresh: "calculate_freshness_score (timedelta_hours 14)
        \<lparr>wall = timedelta_hours 10, tzinfo = None\<rparr> = 3152519739159347 / 2 ^ 52"
    by (simp add: calculate_freshness_score_def Let_def timedelta_hours_def timedelta_days_def
        fl64_decimals)
  have src: "calculate_source_score (source_weights_of RSS_SOURCES) (ascii ''Dev.to'')
      = 7656119366529843 / 2 ^ 53"
    by (simp add: calculate_source_score_def source_weights_of_def RSS_SOURCES_def ascii_def
        float_div_def)
      (subst fl64_eval [where e = "- 1"],
        simp_all add: round_half_even_def Let_def power_int_minus)
  have "fl64 (2 / 5) = 3602879701896397 / 2 ^ 53"
    by (subst fl64_eval [where e = "- 2"])
      (simp_all add: round_half_even_def Let_def power_int_minus)
  moreover have "fl64 2 = 2"
    by (subst fl64_eval [where e = 1])
      (simp_all add: round_half_even_def Let_def power_int_minus)
  ultimately have kw: "calculate_keyword_score U (ascii ''New AI Coding Tool'') []
      = 3602879701896397 / 2 ^ 53"
    unfolding keyword_score_saturates(1) keyword_count_example(1)
    by (simp add: float_div_def float_of_int_def)
  have len: "calculate_length_score 0 = 0.5"
    by (simp add: calculate_length_score_def fl64_decimals)
  have p1: "float_mul (3152519739159347 / 2 ^ 52) WEIGHT_FRESHNESS
      = 7566047373982433 / 2 ^ 55"
    unfolding float_mul_def WEIGHT_FRESHNESS_def fl64_decimals
    by (subst fl64_eval [where e = "- 3"])
      (simp_all add: round_half_even_def Let_def power_int_minus)
  have p2: "float_mul (7656119366529843 / 2 ^ 53) WEIGHT_SOURCE = 7656119366529843 / 2 ^ 55"
    unfolding float_mul_def WEIGHT_SOURCE_def
    by (subst fl64_eval [where e = "- 3"])
      (simp_all add: round_half_even_def Let_def power_int_minus)
  have p3: "float_mul (3602879701896397 / 2 ^ 53) WEIGHT_KEYWORDS
      = 3602879701896397 / 2 ^ 55"
    unfolding float_mul_def WEIGHT_KEYWORDS_def
    by (subst fl64_eval [where e = "- 4"])
      (simp_all add: round_half_even_def Let_def power_int_minus)
  have p4: "float_mul 0.5 WEIGHT_LENGTH = 3602879701896397 / 2 ^ 55"
    unfolding float_mul_def WEIGHT_LENGTH_def fl64_decimals
    by (subst fl64_eval [where e = "- 4"])
      (simp_all add: round_half_even_def Let_def power_int_minus)
  have a1: "float_add (7566047373982433 / 2 ^ 55) (7656119366529843 / 2 ^ 55)
      = 3805541685128069 / 2 ^ 53"
    unfolding float_add_def
    by (subst fl64_eval [where e = "- 2"])
      (simp_all add: round_half_even_def Let_def power_int_minus)
  have a2: "float_add (3805541685128069 / 2 ^ 53) (3602879701896397 / 2 ^ 55)
      = 588282701325271 / 2 ^ 50"
    unfolding float_add_def
    by (subst fl64_eval [where e = "- 1"])
      (simp_all add: round_half_even_def Let_def power_int_minus)
  have a3: "float_add (588282701325271 / 2 ^ 50) (3602879701896397 / 2 ^ 55)
      = 5606981536076267 / 2 ^ 53"
    unfolding float_add_def
    by (subst fl64_eval [where e = "- 1"])
      (simp_all add: round_half_even_def Let_def power_int_minus)
  have t: "float_mul (5606981536076267 / 2 ^ 53) RATING_MAX = 3504363460047667 / 2 ^ 49"
    unfolding float_mul_def RATING_MAX_def
    by (subst fl64_eval [where e = 2])
      (simp_all add: round_half_even_def Let_def power_int_minus)
  have clamp: "max RATING_MIN (min RATING_MAX (3504363460047667 / 2 ^ 49))
      = 3504363460047667 / 2 ^ 49"
    by (simp add: RATING_MIN_def RATING_MAX_def)
  have rnd: "round2 (3504363460047667 / 2 ^ 49) = fl64 6.22"
    by (simp add: round2_def round_half_even_def Let_def)
  show ?thesis
    by (simp only: calculate_rating_def Let_def News.select_convs
        fresh src kw len p1 p2 p3 p4 a1 a2 a3 t clamp rnd)
qed

lemma calculate_rating_long_article:
  "calculate_rating U (source_weights_of RSS_SOURCES) (timedelta_hours 14)
     \<lparr>title = ascii ''Weather report'', link = ascii ''b'', description = [],
      source = ascii ''Dev.to'',
      published_at = \<lparr>wall = timedelta_hours 10, tzinfo = None\<rparr>,
      language = ascii ''en'', rating = 0, parsed_at = None, content_hash = None,
      id_news = None\<rparr> 1000
   = fl64 6.23"
proof -
  have fresh: "calculate_freshness_score (timedelta_hours 14)
        \<lparr>wall = timedelta_hours 10, tzinfo = None\<rparr> = 3152519739159347 / 2 ^ 52"
    by (simp add: calculate_freshness_score_def Let_def timedelta_hours_def timedelta_days_def
        fl64_decimals)
  have src: "calculate_source_score (source_weights_of RSS_SOURCES) (ascii ''Dev.to'')
      = 7656119366529843 / 2 ^ 53"
    by (simp add: calculate_source_score_def source_weights_of_def RSS_SOURCES_def ascii_def
        float_div_def)
      (subst fl64_eval [where e = "- 1"],
        simp_all add: round_half_even_def Let_def power_int_minus)
  have kw: "calculate_keyword_score U (ascii ''Weather report'') [] = 0"
    by (rule keyword_score_saturates(3)) (rule keyword_count_weather)
  have len: "calculate_length_score 1000 = 1"
    by (simp add: calculate_length_score_def fl64_decimals)
  have p1: "float_mul (3152519739159347 / 2 ^ 52) WEIGHT_FRESHNESS
      = 7566047373982433 / 2 ^ 55"
    unfolding float_mul_def WEIGHT_FRESHNESS_def fl64_decimals
    by (subst fl64_eval [where e = "- 3"])
      (simp_all add: round_half_even_def Let_def power_int_minus)
  have p2: "float_mul (7656119366529843 / 2 ^ 53) WEIGHT_SOURCE = 7656119366529843 / 2 ^ 55"
    unfolding float_mul_def WEIGHT_SOURCE_def
    by (subst fl64_eval [where e = "- 3"])
      (simp_all add: round_half_even_def Let_def power_int_minus)
  have p3: "float_mul 0 WEIGHT_KEYWORDS = 0"
    by (simp add: float_mul_def WEIGHT_KEYWORDS_def fl64_zero)
  have p4: "float_mul 1 WEIGHT_LENGTH = 3602879701896397 / 2 ^ 54"
    unfolding float_mul_def WEIGHT_LENGTH_def fl64_decimals
    by (subst fl64_eval [where e = "- 3"])
      (simp_all add: round_half_even_def Let_def power_int_minus)
  have a1: "float_add (7566047373982433 / 2 ^ 55) (7656119366529843 / 2 ^ 55)
      = 3805541685128069 / 2 ^ 53"
    unfolding float_add_def
    by (subst fl64_eval [where e = "- 2"])
      (simp_all add: round_half_even_def Let_def power_int_minus)
  have a2: "float_add (3805541685128069 / 2 ^ 53) 0 = 3805541685128069 / 2 ^ 53"
    unfolding float_add_def
    by (subst fl64_eval [where e = "- 2"])
      (simp_all add: round_half_even_def Let_def power_int_minus)
  have a3: "float_add (3805541685128069 / 2 ^ 53) (3602879701896397 / 2 ^ 54)
      = 1401745384019067 / 2 ^ 51"
    unfolding float_add_def
    by (subst fl64_eval [where e = "- 1"])
      (simp_all add: round_half_even_def Let_def power_int_minus)
  have t: "float_mul (1401745384019067 / 2 ^ 51) RATING_MAX = 7008726920095335 / 2 ^ 50"
    unfolding float_mul_def RATING_MAX_def
    by (subst fl64_eval [where e = 2])
      (simp_all add: round_half_even_def Let_def power_int_minus)
  have clamp: "max RATING_MIN (min RATING_MAX (7008726920095335 / 2 ^ 50))
      = 7008726920095335 / 2 ^ 50"
    by (simp add: RATING_MIN_def RATING_MAX_def)
  have rnd: "round2 (7008726920095335 / 2 ^ 50) = fl64 6.23"
    by (simp add: round2_def round_half_even_def Let_def)
  show ?thesis
    by (simp only: calculate_rating_def Let_def News.select_convs
        fresh src kw len p1 p2 p3 p4 a1 a2 a3 t clamp rnd)
qed

lemma rank_news_list_example:
  fixes a b :: News
  defines "a \<equiv> \<lparr>title = ascii ''New AI Coding Tool'', link = ascii ''a'', description = [],
        source = ascii ''Dev.to'',
        published_at = \<lparr>wall = timedelta_hours 10, tzinfo = None\<rparr>,
        language = ascii ''en'', rating = 0, parsed_at = None, content_hash = None,
        id_news = None\<rparr>"
    and "b \<equiv> \<lparr>title = ascii ''Weather report'', link = ascii ''b'', description = [],
        source = ascii ''Dev.to'',
        published_at = \<lparr>wall = timedelta_hours 10, tzinfo = None\<rparr>,
        language = ascii ''en'', rating = 0, parsed_at = None, content_hash = None,
        id_news = None\<rparr>"
  shows "rank_news_list U (source_weights_of RSS_SOURCES) (\<lambda>i. timedelta_hours 14) [a, b]
           (Some [ascii ''b'' \<mapsto> 1000])
         = [b\<lparr>rating := fl64 6.23\<rparr>, a\<lparr>rating := fl64 6.22\<rparr>]"
proof -
  have va: "fl64 6.22 = 7003097420561121 / 2 ^ 50"
    by (subst fl64_eval [where e = 2])
      (simp_all add: round_half_even_def Let_def power_int_minus)
  have vb: "fl64 6.23 = 1753589104907387 / 2 ^ 48"
    by (subst fl64_eval [where e = 2])
      (simp_all add: round_half_even_def Let_def power_int_minus)
  have la: "[ascii ''b'' \<mapsto> 1000] (link a) = None"
    by (simp add: a_def ascii_def)
  have lb: "[ascii ''b'' \<mapsto> (1000::int)] (link b) = Some 1000"
    by (simp add: b_def)
  have ra: "calculate_rating U (source_weights_of RSS_SOURCES) (timedelta_hours 14) a 0
      = 7003097420561121 / 2 ^ 50"
    unfolding a_def calculate_rating_two_keywords va by (rule refl)
  have rb: "calculate_rating U (source_weights_of RSS_SOURCES) (timedelta_hours 14) b 1000
      = 1753589104907387 / 2 ^ 48"
    unfolding b_def calculate_rating_long_article vb by (rule refl)
  show ?thesis
    unfolding va vb
    by (simp add: rank_news_list_def Let_def sorted_reverse_def la lb ra rb del: fun_upd_apply)
qed

text \<open>
  C9. \<open>rank_news_list\<close> returns a permutation of the rated list, which is the input
  list with the rating of every entry set to \<open>calculate_rating\<close> of that entry (with
  the length that \<open>article_lengths\<close> holds for its link, 0 when it holds none, and the
  clock as it is read for that entry), the other fields as they were. The list returned
  is in descending order of that rating, and the entries of any one rating stand in it
  in the order they have in the input. The rating is the float that the code computes:
  in \<open>rank_news_list_example\<close> two entries that exact arithmetic would rate the same are
  rated 6.22 and 6.23 and change places.
\<close>

theorem rank_news_list_sorted_stable:
  fixes U :: unicode and sw :: "pystr \<rightharpoonup> real" and clock :: "nat \<Rightarrow> int"
    and news_list :: "News list" and article_lengths :: "(pystr \<rightharpoonup> int) option"
    and lengths :: "pystr \<rightharpoonup> int" and rated ranked :: "News list"
  defines "lengths \<equiv> (case article_lengths of None \<Rightarrow> Map.empty | Some d \<Rightarrow> d)"
      and "rated \<equiv>
             map (\<lambda>j. (news_list ! j)\<lparr>rating :=
                    calculate_rating U sw (clock j) (news_list ! j)
                      (case lengths (link (news_list ! j)) of None \<Rightarrow> 0 | Some l \<Rightarrow> l)\<rparr>)
               [0..<length news_list]"
      and "ranked \<equiv> rank_news_list U sw clock news_list article_lengths"
  shows "map (\<lambda>n. n\<lparr>rating := 0\<rparr>) rated = map (\<lambda>n. n\<lparr>rating := 0\<rparr>) news_list \<and>
         mset ranked = mset rated \<and>
         sorted_wrt (\<lambda>a b. rating b \<le> rating a) ranked \<and>
         (\<forall>r. filter (\<lambda>n. rating n = r) ranked = filter (\<lambda>n. rating n = r) rated)"
proof -
  have rated: "rated = rate_news U sw clock lengths 0 news_list"
    by (simp add: rated_def rate_news_map)
  have ranked: "ranked = sorted_reverse rating rated"
    by (simp add: ranked_def rated rank_news_list_def Let_def lengths_def)
  have entries: "map (\<lambda>n. n\<lparr>rating := 0\<rparr>) rated = map (\<lambda>n. n\<lparr>rating := 0\<rparr>) news_list"
    unfolding rated by (rule rate_news_entries)
  show ?thesis
    unfolding ranked
    by (simp add: mset_sorted_reverse descending_sorted_reverse stable_sorted_reverse entries)
qed

section \<open>Fetching and decoding (parser/rss_parser.py)\<close>

text \<open>
  What one \<open>session.get(url, timeout=self.timeout)\<close> and the reading of its body come
  to: a response with its status and text, \<open>asyncio.TimeoutError\<close>, or another
  exception. The network is an input: it gives the outcome for a URL and an attempt number.
\<close>

datatype attempt = Response nat pystr | Timeout | ClientError

type_synonym network = "pystr \<Rightarrow> nat \<Rightarrow> attempt"

text \<open>The requests and sleeps that a call awaits, in their order.\<close>

datatype event = Get pystr nat | Sleep nat

text \<open>
  \<open>fetch_feed\<close>: the loop over \<open>range(MAX_RETRIES)\<close>. A response of status 200 ends
  it with the text; after any other outcome it logs and, unless the attempt was the
  last, sleeps \<open>RETRY_DELAY\<close>. When the range is used up it returns the empty string.
\<close>

fun fetch_attempts :: "network \<Rightarrow> pystr \<Rightarrow> nat list \<Rightarrow> pystr \<times> event list" where
  "fetch_attempts net url [] = ([], [])"
| "fetch_attempts net url (attempt # rest) =
     (let pause = (if attempt < MAX_RETRIES - 1 then [Sleep RETRY_DELAY] else []);
          (content, events) = fetch_attempts net url rest;
          retry = (content, Get url REQUEST_TIMEOUT # pause @ events)
      in case net url attempt of
           Response status text \<Rightarrow>
             if status = 200 then (text, [Get url REQUEST_TIMEOUT]) else retry
         | Timeout \<Rightarrow> retry
         | ClientError \<Rightarrow> retry)"

definition fetch_feed :: "network \<Rightarrow> pystr \<Rightarrow> pystr \<times> event list" where
  "fetch_feed net url = fetch_attempts net url [0..<MAX_RETRIES]"

text \<open>
  \<open>parse_feed_content\<close>. The parser of the feed and the construction of a \<open>News\<close> from
  one of its entries (the body of the \<open>try\<close> in the loop) are the library's; they are
  parameters, and each may raise. An entry whose construction raises is skipped.
\<close>

definition parse_feed_content ::
  "(pystr \<Rightarrow> py_error + 'e list) \<Rightarrow> (rss_source \<Rightarrow> 'e \<Rightarrow> py_error + News) \<Rightarrow>
   pystr \<Rightarrow> rss_source \<Rightarrow> py_error + News list" where
  "parse_feed_content feedparser_parse entry_news content src =
     (case feedparser_parse content of
        Inl e \<Rightarrow> Inl e
      | Inr entries \<Rightarrow>
          Inr (foldl (\<lambda>news_list entry.
                        case entry_news src entry of
                          Inr news \<Rightarrow> news_list @ [news]
                        | Inl e \<Rightarrow> news_list) [] entries))"

definition parse_source ::
  "(pystr \<Rightarrow> py_error + 'e list) \<Rightarrow> (rss_source \<Rightarrow> 'e \<Rightarrow> py_error + News) \<Rightarrow>
   network \<Rightarrow> rss_source \<Rightarrow> py_error + News list" where
  "parse_source feedparser_parse entry_news net src =
     (let content = fst (fetch_feed net (src_url src))
      in if content = [] then Inr []
         else parse_feed_content feedparser_parse entry_news content src)"

text \<open>
  \<open>parse_all_sources\<close>: \<open>asyncio.gather(*tasks, return_exceptions=True)\<close> gives the
  results of the tasks in the order of the sources, an exception that a task raised
  being its result. The outcome of a request does not depend on the other tasks.
\<close>

definition parse_all_sources ::
  "(pystr \<Rightarrow> py_error + 'e list) \<Rightarrow> (rss_source \<Rightarrow> 'e \<Rightarrow> py_error + News) \<Rightarrow>
   network \<Rightarrow> rss_source list \<Rightarrow> News list" where
  "parse_all_sources feedparser_parse entry_news net sources =
     (let results = map (parse_source feedparser_parse entry_news net) sources
      in foldl (\<lambda>all_news result.
                  case result of
                    Inr news_list \<Rightarrow> all_news @ news_list
                  | Inl e \<Rightarrow> all_news) [] results)"

subsection \<open>Retries\<close>

text \<open>
  An attempt fails when it times out, raises, or gets a status other than 200; the
  trace of \<open>k\<close> requests with a sleep between any two of them.
\<close>

fun attempt_text :: "attempt \<Rightarrow> pystr option" where
  "attempt_text (Response status text) = (if status = 200 then Some text else None)"
| "attempt_text Timeout = None"
| "attempt_text ClientError = None"

fun requests :: "pystr \<Rightarrow> nat \<Rightarrow> event list" where
  "requests url 0 = []"
| "requests url (Suc 0) = [Get url REQUEST_TIMEOUT]"
| "requests url (Suc (Suc k)) =
     Get url REQUEST_TIMEOUT # Sleep RETRY_DELAY # requests url (Suc k)"

definition fetch_failed :: "network \<Rightarrow> pystr \<Rightarrow> bool" where
  "fetch_failed net url \<longleftrightarrow> list_all (\<lambda>i. attempt_text (net url i) = None) [0..<MAX_RETRIES]"

lemma upt_MAX_RETRIES: "[0..<MAX_RETRIES] = [0, 1, 2]"
  by (simp add: MAX_RETRIES_def upt_rec)

lemma fetch_feed_cases:
  "fetch_feed net url =
     (case attempt_text (net url 0) of
        Some text \<Rightarrow> (text, requests url 1)
      | None \<Rightarrow>
          (case attempt_text (net url 1) of
             Some text \<Rightarrow> (text, requests url 2)
           | None \<Rightarrow>
               (case attempt_text (net url 2) of
                  Some text \<Rightarrow> (text, requests url 3)
                | None \<Rightarrow> ([], requests url 3))))"
  by (simp add: fetch_feed_def upt_MAX_RETRIES Let_def MAX_RETRIES_def numeral_3_eq_3
      numeral_2_eq_2 split: attempt.splits)

lemma fetch_failed_iff:
  "fetch_failed net url \<longleftrightarrow>
     attempt_text (net url 0) = None \<and> attempt_text (net url 1) = None \<and>
     attempt_text (net url 2) = None"
  by (simp add: fetch_failed_def upt_MAX_RETRIES)

text \<open>
  C7, as stated, fails in its last part: \<open>fetch_feed\<close> has no error value. After three
  timeouts, after three responses of status 503 and after three other errors it returns
  the same value, the empty string, which is also what a response of status 200 with an
  empty body gives.
\<close>

theorem fetch_feed_error_kind_counterexample:
  "fst (fetch_feed (\<lambda>url i. Timeout) (ascii ''https://dev.to/feed'')) = [] \<and>
   fst (fetch_feed (\<lambda>url i. Response 503 (ascii ''busy'')) (ascii ''https://dev.to/feed'')) = [] \<and>
   fst (fetch_feed (\<lambda>url i. ClientError) (ascii ''https://dev.to/feed'')) = [] \<and>
   fst (fetch_feed (\<lambda>url i. Response 200 []) (ascii ''https://dev.to/feed'')) = []"
  by (simp add: fetch_feed_cases)

text \<open>
  C7, amended. \<open>fetch_feed\<close> makes its requests under the timeout \<open>REQUEST_TIMEOUT\<close>,
  one after the other with a sleep of \<open>RETRY_DELAY\<close> between two of them, and stops at
  the first response of status 200, whose text it returns; it makes at most
  \<open>MAX_RETRIES\<close> requests. A timeout, a status other than 200 and any other exception
  are failures that it retries. When all \<open>MAX_RETRIES\<close> attempts fail it returns the
  empty string, whatever the kinds of the failures were.
\<close>

theorem fetch_feed_retries:
  "(\<exists>k. 1 \<le> k \<and> k \<le> MAX_RETRIES \<and> snd (fetch_feed net url) = requests url k \<and>
        (case attempt_text (net url (k - 1)) of
           Some text \<Rightarrow> fst (fetch_feed net url) = text
         | None \<Rightarrow> k = MAX_RETRIES \<and> fst (fetch_feed net url) = []) \<and>
        list_all (\<lambda>i. attempt_text (net url i) = None) [0..<k - 1]) \<and>
   (fetch_failed net url \<longrightarrow> fetch_feed net url = ([], requests url MAX_RETRIES))"
proof -
  have "\<exists>k. 1 \<le> k \<and> k \<le> MAX_RETRIES \<and> snd (fetch_feed net url) = requests url k \<and>
        (case attempt_text (net url (k - 1)) of
           Some text \<Rightarrow> fst (fetch_feed net url) = text
         | None \<Rightarrow> k = MAX_RETRIES \<and> fst (fetch_feed net url) = []) \<and>
        list_all (\<lambda>i. attempt_text (net url i) = None) [0..<k - 1]"
  proof (cases "attempt_text (net url 0)")
    case (Some t)
    then show ?thesis
      by (intro exI [of _ 1]) (simp add: fetch_feed_cases MAX_RETRIES_def)
  next
    case first: None
    show ?thesis
    proof (cases "attempt_text (net url 1)")
      case (Some t)
      with first show ?thesis
        by (intro exI [of _ 2]) (simp add: fetch_feed_cases MAX_RETRIES_def upt_rec)
    next
      case second: None
      with first show ?thesis
        by (intro exI [of _ 3])
          (simp add: fetch_feed_cases MAX_RETRIES_def upt_rec split: option.splits)
    qed
  qed
  moreover have "fetch_failed net url \<longrightarrow> fetch_feed net url = ([], requests url MAX_RETRIES)"
    by (simp add: fetch_failed_iff fetch_feed_cases MAX_RETRIES_def)
  ultimately show ?thesis
    by blast
qed

theorem fetch_feed_retries_witness:
  "fetch_feed (\<lambda>url i. if i = 0 then Timeout else if i = 1 then Response 404 [] else ClientError)
     (ascii ''https://dev.to/feed'')
   = ([], [Get (ascii ''https://dev.to/feed'') 30, Sleep 2,
           Get (ascii ''https://dev.to/feed'') 30, Sleep 2,
           Get (ascii ''https://dev.to/feed'') 30])"
proof -
  have "fetch_failed (\<lambda>url i. if i = 0 then Timeout else if i = 1 then Response 404 []
                                else ClientError) (ascii ''https://dev.to/feed'')"
    by (simp add: fetch_failed_iff)
  with fetch_feed_retries show ?thesis
    by (simp add: MAX_RETRIES_def REQUEST_TIMEOUT_def RETRY_DELAY_def numeral_3_eq_3)
qed

subsection \<open>A source that fails does not stop the others\<close>

lemma foldl_gather_results:
  "foldl (\<lambda>all_news result. case result of Inr news_list \<Rightarrow> all_news @ news_list
                                | Inl e \<Rightarrow> all_news) acc results
   = acc @ concat (map (\<lambda>result. case result of Inr news_list \<Rightarrow> news_list | Inl e \<Rightarrow> [])
                    results)"
  by (induction results arbitrary: acc) (simp_all split: sum.splits)

lemma parse_source_failed:
  assumes "fetch_failed net (src_url src)"
  shows "parse_source feedparser_parse entry_news net src = Inr []"
  using assms by (simp add: parse_source_def fetch_failed_iff fetch_feed_cases)

lemma concat_map_filter_nonempty:
  assumes "\<And>x. x \<in> set xs \<Longrightarrow> \<not> keep x \<Longrightarrow> f x = []"
  shows "concat (map f xs) = concat (map f (filter keep xs))"
  using assms by (induction xs) auto

text \<open>
  C3. A source fails when all \<open>MAX_RETRIES\<close> attempts to fetch its URL fail, by a
  timeout, a status other than 200 or another error. \<open>parse_all_sources\<close> returns a
  list, whatever the sources do: the entries decoded from the sources that did not fail,
  in the order of the sources. A failed source adds nothing to it, and neither does a
  source whose feed the parser rejects with an exception. What a source that did not
  fail adds is the result of \<open>parse_feed_content\<close> on the text that was fetched.
\<close>

theorem parse_all_sources_partial_failure:
  "parse_all_sources feedparser_parse entry_news net sources =
     concat (map (\<lambda>src. case parse_source feedparser_parse entry_news net src of
                           Inr news_list \<Rightarrow> news_list | Inl e \<Rightarrow> [])
              (filter (\<lambda>src. \<not> fetch_failed net (src_url src)) sources)) \<and>
   (\<forall>src. fetch_failed net (src_url src) \<longrightarrow>
          parse_source feedparser_parse entry_news net src = Inr []) \<and>
   (\<forall>src. fst (fetch_feed net (src_url src)) \<noteq> [] \<longrightarrow>
          parse_source feedparser_parse entry_news net src =
          parse_feed_content feedparser_parse entry_news (fst (fetch_feed net (src_url src))) src)"
proof -
  let ?entries = "\<lambda>src. case parse_source feedparser_parse entry_news net src of
                           Inr news_list \<Rightarrow> news_list | Inl e \<Rightarrow> []"
  have "parse_all_sources feedparser_parse entry_news net sources = concat (map ?entries sources)"
    by (simp add: parse_all_sources_def foldl_gather_results comp_def)
  also have "\<dots> = concat (map ?entries
      (filter (\<lambda>src. \<not> fetch_failed net (src_url src)) sources))"
    by (rule concat_map_filter_nonempty) (simp add: parse_source_failed)
  finally show ?thesis
    by (simp add: parse_source_failed) (simp add: parse_source_def)
qed

theorem parse_all_sources_partial_failure_witness:
  fixes dev hn reddit :: rss_source and item :: "rss_source \<Rightarrow> pystr \<Rightarrow> News"
  defines "dev \<equiv> \<lparr>src_name = ascii ''Dev.to'', src_url = ascii ''https://dev.to/feed'',
      src_language = ascii ''en'', src_weight = 8.5, src_category = ascii ''vibe-coding''\<rparr>"
    and "hn \<equiv> \<lparr>src_name = ascii ''Hacker News'', src_url = ascii ''https://hnrss.org/newest'',
      src_language = ascii ''en'', src_weight = 9.0, src_category = ascii ''vibe-coding''\<rparr>"
    and "reddit \<equiv> \<lparr>src_name = ascii ''Reddit Programming'',
      src_url = ascii ''https://www.reddit.com/r/programming/.rss'',
      src_language = ascii ''en'', src_weight = 7.5, src_category = ascii ''vibe-coding''\<rparr>"
    and "item \<equiv> \<lambda>src entry. \<lparr>title = entry, link = src_url src, description = [],
      source = src_name src, published_at = \<lparr>wall = 0, tzinfo = None\<rparr>,
      language = src_language src, rating = 0, parsed_at = None, content_hash = None,
      id_news = None\<rparr>"
  shows "parse_all_sources (\<lambda>content. Inr [content]) (\<lambda>src entry. Inr (item src entry))
           (\<lambda>url i. if url = ascii ''https://hnrss.org/newest'' then Timeout
                     else Response 200 (ascii ''feed''))
           [dev, hn, reddit]
         = [item dev (ascii ''feed''), item reddit (ascii ''feed'')]"
proof -
  let ?net = "\<lambda>url i. if url = ascii ''https://hnrss.org/newest'' then Timeout
                     else Response 200 (ascii ''feed'')"
  have failed: "\<not> fetch_failed ?net (src_url dev)" "fetch_failed ?net (src_url hn)"
      "\<not> fetch_failed ?net (src_url reddit)"
    by (simp_all add: fetch_failed_iff dev_def hn_def reddit_def ascii_def)
  have fetched: "fst (fetch_feed ?net (src_url dev)) = ascii ''feed''"
      "fst (fetch_feed ?net (src_url reddit)) = ascii ''feed''"
    by (simp_all add: fetch_feed_cases dev_def reddit_def ascii_def)
  from parse_all_sources_partial_failure
    [of "\<lambda>content. Inr [content]" "\<lambda>src entry. Inr (item src entry)" ?net "[dev, hn, reddit]"]
  have "parse_all_sources (\<lambda>content. Inr [content]) (\<lambda>src entry. Inr (item src entry)) ?net
          [dev, hn, reddit]
        = concat (map (\<lambda>src. case parse_source (\<lambda>content. Inr [content])
                                     (\<lambda>src entry. Inr (item src entry)) ?net src of
                                Inr news_list \<Rightarrow> news_list | Inl e \<Rightarrow> [])
                   (filter (\<lambda>src. \<not> fetch_failed ?net (src_url src)) [dev, hn, reddit]))"
    by blast
  also have "\<dots> = [item dev (ascii ''feed''), item reddit (ascii ''feed'')]"
    using failed fetched by (simp add: parse_source_def parse_feed_content_def ascii_def)
  finally show ?thesis .
qed

section \<open>Scheduler (bot/scheduler.py)\<close>

subsection \<open>Daily mode: the time to wait\<close>

text \<open>
  \<open>datetime.strptime(s, "%H:%M")\<close> on an ASCII string: one or two digits of an hour up
  to 23, a colon, one or two digits of a minute up to 59, and nothing else; any other
  string raises \<open>ValueError\<close>.
\<close>

definition digit :: "char \<Rightarrow> bool" where
  "digit c \<longleftrightarrow> 48 \<le> (of_char c :: nat) \<and> (of_char c :: nat) \<le> 57"

definition number :: "string \<Rightarrow> nat" where
  "number s = foldl (\<lambda>a c. 10 * a + (of_char c - 48)) 0 s"

definition strptime_HM :: "string \<Rightarrow> py_error + (nat \<times> nat)" where
  "strptime_HM s =
     (let hh = takeWhile (\<lambda>c. c \<noteq> CHR '':'') s;
          rest = dropWhile (\<lambda>c. c \<noteq> CHR '':'') s;
          mm = tl rest
      in if rest \<noteq> [] \<and> (length hh = 1 \<or> length hh = 2) \<and>
            (length mm = 1 \<or> length mm = 2) \<and> list_all digit hh \<and> list_all digit mm \<and>
            number hh \<le> 23 \<and> number mm \<le> 59
         then Inr (number hh, number mm)
         else Inl ValueError)"

text \<open>
  The date (a number of days) and the time of day (in microseconds) of a naive
  \<open>datetime\<close>, and \<open>datetime.combine\<close>.
\<close>

definition date_of :: "int \<Rightarrow> int" where
  "date_of t = t div timedelta_days 1"

definition time_of :: "int \<Rightarrow> int" where
  "time_of t = t mod timedelta_days 1"

definition combine :: "int \<Rightarrow> int \<Rightarrow> int" where
  "combine d t = d * timedelta_days 1 + t"

text \<open>
  The body of the loop of \<open>_run_daily_schedule\<close> up to the sleep: the value of
  \<open>wait_seconds\<close> for the reading \<open>now\<close> of the clock, or the exception of
  \<open>strptime\<close>. The value is the exact number of seconds, a multiple of one
  microsecond; \<open>total_seconds()\<close> returns the double nearest to it.
\<close>

definition daily_wait_seconds :: "string \<Rightarrow> int \<Rightarrow> py_error + real" where
  "daily_wait_seconds daily_send_time now =
     (case strptime_HM daily_send_time of
        Inl e \<Rightarrow> Inl e
      | Inr (h, m) \<Rightarrow>
          let send_time = (int h * 3600 + int m * 60) * 1000000;
              next_send = combine (date_of now) send_time;
              next_send = (if send_time < time_of now
                           then combine (date_of now) send_time + timedelta_days 1
                           else next_send);
              wait_seconds = real_of_int (next_send - now) / 1000000
          in Inr wait_seconds)"

lemma strptime_DAILY_SEND_TIME: "strptime_HM DAILY_SEND_TIME = Inr (9, 0)"
  by (simp add: strptime_HM_def DAILY_SEND_TIME_def digit_def number_def)

lemma strptime_HM_examples:
  "strptime_HM ''24:00'' = Inl ValueError"
  "strptime_HM ''9:5'' = Inr (9, 5)"
  "strptime_HM ''0900'' = Inl ValueError"
  by (simp_all add: strptime_HM_def digit_def number_def)

lemma strptime_HM_range:
  assumes "strptime_HM s = Inr (h, m)"
  shows "h \<le> 23 \<and> m \<le> 59"
  using assms by (auto simp: strptime_HM_def Let_def split: if_splits)

lemma now_split: "now = combine (date_of now) (time_of now)"
  by (simp add: combine_def date_of_def time_of_def)

lemma time_of_range: "0 \<le> time_of now \<and> time_of now < timedelta_days 1"
  by (simp add: time_of_def timedelta_days_def)

lemma daily_wait_example:
  "daily_wait_seconds DAILY_SEND_TIME (combine day (timedelta_hours 10)) = Inr (23 * 3600)"
  by (simp add: daily_wait_seconds_def strptime_DAILY_SEND_TIME Let_def combine_def
      date_of_def time_of_def timedelta_hours_def timedelta_days_def)

text \<open>
  C8. For a configured time that \<open>strptime\<close> accepts, the loop waits \<open>d\<close>
  microseconds, where \<open>now + d\<close> is the configured time of day on the day of \<open>now\<close>
  if the time of day of \<open>now\<close> is not past it, and on the next day otherwise; \<open>d\<close> is
  never negative and less than a day. At 10:00 with the target 09:00 the wait is 23
  hours.
\<close>

theorem daily_wait_next_occurrence:
  assumes parse: "strptime_HM send = Inr (h, m)"
  defines "send_time \<equiv> (int h * 3600 + int m * 60) * 1000000"
  shows "\<exists>d. daily_wait_seconds send now = Inr (real_of_int d / 1000000) \<and>
             0 \<le> d \<and> d < timedelta_days 1 \<and>
             d = (if time_of now \<le> send_time then send_time - time_of now
                  else send_time + timedelta_days 1 - time_of now) \<and>
             now + d = combine (if time_of now \<le> send_time then date_of now else date_of now + 1)
                         send_time"
proof -
  have hm: "h \<le> 23" "m \<le> 59"
    using strptime_HM_range [OF parse] by simp_all
  then have st: "0 \<le> send_time" "send_time < timedelta_days 1"
    by (simp_all add: send_time_def timedelta_days_def)
  define d where "d = (if time_of now \<le> send_time then send_time - time_of now
                  else send_time + timedelta_days 1 - time_of now)"
  have tr: "0 \<le> time_of now" "time_of now < timedelta_days 1"
    using time_of_range [of now] by simp_all
  have range: "0 \<le> d" "d < timedelta_days 1"
    using st tr by (simp_all add: d_def)
  have next_send: "now + d =
      combine (if time_of now \<le> send_time then date_of now else date_of now + 1) send_time"
    using now_split [of now] by (simp add: d_def combine_def algebra_simps)
  have diff: "(if send_time < time_of now
               then combine (date_of now) send_time + timedelta_days 1
               else combine (date_of now) send_time) - now = d"
    using now_split [of now] by (simp add: d_def combine_def)
  have "daily_wait_seconds send now =
      Inr (real_of_int ((if send_time < time_of now
               then combine (date_of now) send_time + timedelta_days 1
               else combine (date_of now) send_time) - now) / 1000000)"
    unfolding daily_wait_seconds_def parse send_time_def Let_def by simp
  then have "daily_wait_seconds send now = Inr (real_of_int d / 1000000)"
    by (simp only: diff)
  with range next_send show ?thesis
    unfolding d_def by blast
qed

theorem daily_wait_next_occurrence_witness:
  "daily_wait_seconds DAILY_SEND_TIME (timedelta_hours 10) = Inr (23 * 3600)"
proof -
  from daily_wait_next_occurrence [OF strptime_DAILY_SEND_TIME, of "timedelta_hours 10"]
  obtain d where "daily_wait_seconds DAILY_SEND_TIME (timedelta_hours 10)
        = Inr (real_of_int d / 1000000)"
    and "d = (if time_of (timedelta_hours 10) \<le> (int 9 * 3600 + int 0 * 60) * 1000000
              then (int 9 * 3600 + int 0 * 60) * 1000000 - time_of (timedelta_hours 10)
              else (int 9 * 3600 + int 0 * 60) * 1000000 + timedelta_days 1
                   - time_of (timedelta_hours 10))"
    by blast
  then show ?thesis
    by (simp add: time_of_def timedelta_hours_def timedelta_days_def)
qed

subsection \<open>Interval mode: the loop and its cycle\<close>

record NewsScheduler =
  is_running :: bool
  mode :: string
  interval :: string

definition stop :: "NewsScheduler \<Rightarrow> NewsScheduler" where
  "stop s = s\<lparr>is_running := False\<rparr>"

text \<open>
  What the world gives to one pass of the loop: the list that \<open>parse_all_sources\<close>
  returns, the clock, an exception other than \<open>IntegrityError\<close> that the database
  raises in \<open>add_news\<close> (\<open>get_connection\<close> raises it again and \<open>add_news\<close> does not
  catch it), an exception raised while the handler of \<open>_send_scheduled_digest\<close> logs the
  one it caught, an exception raised while the handler of the loop logs the one it
  caught, and whether another task calls \<open>stop()\<close> while the pass awaits.
\<close>

record cycle_env =
  fetched :: "News list"
  clock :: "nat \<Rightarrow> int"
  store_fault :: "py_error option"
  handler_fault :: "py_error option"
  loop_handler_fault :: "py_error option"
  stop_requested :: bool

text \<open>
  The period of a digest: \<open>LastHour\<close>, \<open>LastHours hours\<close> and \<open>Today\<close> stand for the
  three Russian labels.
\<close>

datatype period = LastHour | LastHours nat | Today

datatype sched_event = Posted "News list" period | Slept nat

definition interval_seconds :: "string \<Rightarrow> nat" where
  "interval_seconds iv = (case SCHEDULE_INTERVALS iv of None \<Rightarrow> 3600 | Some seconds \<Rightarrow> seconds)"

text \<open>
  The loop \<open>for news in ranked_news: if self.db_manager.add_news(news): saved_count += 1\<close>,
  with the store it leaves and either the count or the exception that ended it.
\<close>

fun save_news :: "py_error option \<Rightarrow> database \<Rightarrow> News list \<Rightarrow> (py_error + nat) \<times> database" where
  "save_news fault db [] = (Inr 0, db)"
| "save_news fault db (news # rest) =
     (case fault of
        Some e \<Rightarrow> (Inl e, db)
      | None \<Rightarrow>
          (case add_news db news of
             Inl e \<Rightarrow> (Inl e, db)
           | Inr (news_id, db') \<Rightarrow>
               (case save_news fault db' rest of
                  (Inl e, db'') \<Rightarrow> (Inl e, db'')
                | (Inr saved_count, db'') \<Rightarrow>
                    (Inr (if news_id \<noteq> None then saved_count + 1 else saved_count), db''))))"

text \<open>
  The \<open>try\<close> block of \<open>_send_scheduled_digest\<close>. \<open>post_digest\<close> catches its own
  exceptions and returns \<open>None\<close> for them; its result only selects a log line.
\<close>

definition digest_body ::
  "unicode \<Rightarrow> (pystr \<rightharpoonup> real) \<Rightarrow> NewsScheduler \<Rightarrow> cycle_env \<Rightarrow> database \<Rightarrow>
   (py_error + unit) \<times> database \<times> sched_event list" where
  "digest_body U sw s env db =
     (let news_list = fetched env
      in if news_list = [] then (Inr (), db, [])
         else
           let ranked_news = rank_news_list U sw (clock env) news_list None
           in case save_news (store_fault env) db ranked_news of
                (Inl e, db') \<Rightarrow> (Inl e, db', [])
              | (Inr saved_count, db') \<Rightarrow>
                  let top_news = take TOP_NEWS_COUNT ranked_news;
                      hours = interval_seconds (interval s) div 3600;
                      period = (if hours = 1 then LastHour
                                else if hours < 24 then LastHours hours
                                else Today)
                  in (Inr (), db', [Posted top_news period]))"

text \<open>
  \<open>_send_scheduled_digest\<close>: \<open>except Exception\<close> around the block logs the exception
  and ends the call normally, unless the logging raises.
\<close>

definition send_scheduled_digest ::
  "unicode \<Rightarrow> (pystr \<rightharpoonup> real) \<Rightarrow> NewsScheduler \<Rightarrow> cycle_env \<Rightarrow> database \<Rightarrow>
   (py_error + unit) \<times> database \<times> sched_event list" where
  "send_scheduled_digest U sw s env db =
     (case digest_body U sw s env db of
        (Inr u, db', events) \<Rightarrow> (Inr (), db', events)
      | (Inl e, db', events) \<Rightarrow>
          (case handler_fault env of
             None \<Rightarrow> (Inr (), db', events)
           | Some e' \<Rightarrow> (Inl e', db', events)))"

text \<open>
  \<open>_run_interval_schedule\<close>, over the passes that are observed: \<open>while self.is_running\<close>
  with the digest and the sleep of the interval in a \<open>try\<close>, and in its
  \<open>except Exception\<close> the logging of the exception and a sleep of 60 seconds. An
  exception raised by that logging is not caught by anything and leaves the loop: it is
  the first component of the result, \<open>None\<close> when the loop was left by no exception. The
  loop has ended when the scheduler it returns is not running.
\<close>

fun run_interval_schedule ::
  "unicode \<Rightarrow> (pystr \<rightharpoonup> real) \<Rightarrow> NewsScheduler \<Rightarrow> database \<Rightarrow> cycle_env list \<Rightarrow>
   py_error option \<times> sched_event list \<times> NewsScheduler \<times> database" where
  "run_interval_schedule U sw s db [] = (None, [], s, db)"
| "run_interval_schedule U sw s db (env # envs) =
     (if \<not> is_running s then (None, [], s, db)
      else
        case send_scheduled_digest U sw s env db of
          (result, db', events) \<Rightarrow>
            let s' = (if stop_requested env then stop s else s);
                handled = (case result of
                             Inr u \<Rightarrow> Inr (Slept (interval_seconds (interval s)))
                           | Inl e \<Rightarrow>
                               (case loop_handler_fault env of
                                  None \<Rightarrow> Inr (Slept 60)
                                | Some e' \<Rightarrow> Inl e'))
            in case handled of
                 Inl e' \<Rightarrow> (Some e', events, s', db')
               | Inr pause \<Rightarrow>
                   let (raised, later, s'', db'') = run_interval_schedule U sw s' db' envs
                   in (raised, events @ [pause] @ later, s'', db''))"

fun slept :: "sched_event \<Rightarrow> bool" where
  "slept (Slept seconds) = True"
| "slept (Posted news_list p) = False"

text \<open>
  The passes in which the \<open>try\<close> block of \<open>_send_scheduled_digest\<close> raises, and those in
  which an exception leaves \<open>_send_scheduled_digest\<close>.
\<close>

definition body_raises :: "cycle_env \<Rightarrow> bool" where
  "body_raises env \<longleftrightarrow> fetched env \<noteq> [] \<and> store_fault env \<noteq> None"

definition digest_raises :: "cycle_env \<Rightarrow> bool" where
  "digest_raises env \<longleftrightarrow> body_raises env \<and> handler_fault env \<noteq> None"

lemma add_news_returns: "\<exists>news_id db'. add_news db news = Inr (news_id, db')"
  by (simp add: add_news_def insert_news_def Let_def)

lemma save_news_fault: "news_list \<noteq> [] \<Longrightarrow> save_news (Some e) db news_list = (Inl e, db)"
  by (cases news_list) simp_all

lemma save_news_returns: "\<exists>saved_count db'. save_news None db news_list = (Inr saved_count, db')"
proof (induction news_list arbitrary: db)
  case Nil
  show ?case by simp
next
  case (Cons news rest)
  obtain news_id db1 where added: "add_news db news = Inr (news_id, db1)"
    using add_news_returns by blast
  obtain saved_count db2 where "save_news None db1 rest = (Inr saved_count, db2)"
    using Cons.IH by blast
  with added show ?case by simp
qed

lemma rank_news_list_empty:
  "rank_news_list U sw clk news_list lengths = [] \<longleftrightarrow> news_list = []"
proof -
  have "length (rank_news_list U sw clk news_list lengths) = length news_list"
    by (simp add: rank_news_list_def Let_def length_sorted_reverse length_rate_news)
  then show ?thesis by (metis length_0_conv)
qed

lemma digest_body_raises:
  assumes "body_raises env"
  shows "digest_body U sw s env db = (Inl (the (store_fault env)), db, [])"
proof -
  from assms obtain e where e: "store_fault env = Some e" and ne: "fetched env \<noteq> []"
    by (auto simp: body_raises_def)
  have "rank_news_list U sw (clock env) (fetched env) None \<noteq> []"
    using ne by (simp add: rank_news_list_empty)
  from save_news_fault [OF this, of e db] e ne show ?thesis
    by (simp add: digest_body_def Let_def)
qed

lemma digest_body_result:
  "fst (digest_body U sw s env db) =
     (if body_raises env then Inl (the (store_fault env)) else Inr ())"
proof (cases "body_raises env")
  case True
  then show ?thesis by (simp add: digest_body_raises)
next
  case False
  show ?thesis
  proof (cases "fetched env = []")
    case True
    then show ?thesis by (simp add: digest_body_def body_raises_def)
  next
    case ne: False
    with False have "store_fault env = None"
      by (simp add: body_raises_def)
    moreover obtain saved_count db' where
      "save_news None db (rank_news_list U sw (clock env) (fetched env) None)
       = (Inr saved_count, db')"
      using save_news_returns by blast
    ultimately show ?thesis
      using ne False by (simp add: digest_body_def Let_def)
  qed
qed

text \<open>
  An exception leaves \<open>_send_scheduled_digest\<close> only when the logging in its handler
  raises: whatever the \<open>try\<close> block raises, the call returns.
\<close>

lemma send_scheduled_digest_result:
  "fst (send_scheduled_digest U sw s env db) =
     (if digest_raises env then Inl (the (handler_fault env)) else Inr ())"
proof (cases "body_raises env")
  case True
  then have "fst (digest_body U sw s env db) = Inl (the (store_fault env))"
    by (simp add: digest_body_result)
  with True show ?thesis
    by (cases "digest_body U sw s env db"; cases "handler_fault env")
      (simp_all add: send_scheduled_digest_def digest_raises_def)
next
  case False
  then have "fst (digest_body U sw s env db) = Inr ()"
    by (simp add: digest_body_result)
  with False show ?thesis
    by (cases "digest_body U sw s env db")
      (simp add: send_scheduled_digest_def digest_raises_def)
qed

lemma send_scheduled_digest_returns:
  "handler_fault env = None \<Longrightarrow> fst (send_scheduled_digest U sw s env db) = Inr ()"
  by (simp add: send_scheduled_digest_result digest_raises_def)

lemma run_interval_schedule_unfold:
  assumes "is_running s" and "digest_raises env \<longrightarrow> loop_handler_fault env = None"
  shows "run_interval_schedule U sw s db (env # envs) =
     (let digest = send_scheduled_digest U sw s env db;
          rest = run_interval_schedule U sw (if stop_requested env then stop s else s)
                   (fst (snd digest)) envs
      in (fst rest,
          snd (snd digest) @
          [Slept (if digest_raises env then 60 else interval_seconds (interval s))] @
          fst (snd rest),
          snd (snd rest)))"
proof -
  obtain result db' events where digest:
    "send_scheduled_digest U sw s env db = (result, db', events)"
    by (cases "send_scheduled_digest U sw s env db") auto
  have result: "result = (if digest_raises env then Inl (the (handler_fault env)) else Inr ())"
    using send_scheduled_digest_result [of U sw s env db] digest by simp
  show ?thesis
  proof (cases "digest_raises env")
    case True
    with assms(2) have "loop_handler_fault env = None"
      by simp
    with True result assms(1) digest show ?thesis
      by (simp add: Let_def split_beta)
  next
    case False
    with result assms(1) digest show ?thesis
      by (simp add: Let_def split_beta)
  qed
qed

text \<open>The exception that leaves the loop when the logging in the loop's handler raises.\<close>

lemma run_interval_schedule_raises:
  assumes "is_running s" and "digest_raises env" and "loop_handler_fault env = Some e'"
  shows "fst (run_interval_schedule U sw s db (env # envs)) = Some e'"
proof -
  obtain result db' events where digest:
    "send_scheduled_digest U sw s env db = (result, db', events)"
    by (cases "send_scheduled_digest U sw s env db") auto
  have "result = Inl (the (handler_fault env))"
    using send_scheduled_digest_result [of U sw s env db] digest assms(2) by simp
  with assms digest show ?thesis
    by (simp add: Let_def)
qed

lemma digest_events_no_sleep:
  "filter slept (snd (snd (send_scheduled_digest U sw s env db))) = []"
  by (auto simp: send_scheduled_digest_def digest_body_def Let_def
      split: prod.splits sum.splits option.splits if_splits)

text \<open>
  While no logging in the loop's handler raises, no exception leaves the loop, every
  pass ends in one sleep, of 60 seconds after a pass that an exception left and of the
  interval after any other pass, and the loop has ended exactly when \<open>stop()\<close> was
  called.
\<close>

lemma run_interval_schedule_passes:
  assumes "list_all (\<lambda>env. digest_raises env \<longrightarrow> loop_handler_fault env = None) envs"
  shows "fst (run_interval_schedule U sw s db envs) = None"
    and "is_running (fst (snd (snd (run_interval_schedule U sw s db envs)))) \<longleftrightarrow>
           is_running s \<and> list_all (\<lambda>env. \<not> stop_requested env) envs"
    and "is_running s \<Longrightarrow> list_all (\<lambda>env. \<not> stop_requested env) envs \<Longrightarrow>
         filter slept (fst (snd (run_interval_schedule U sw s db envs))) =
           map (\<lambda>env. Slept (if digest_raises env then 60
                             else interval_seconds (interval s))) envs"
  using assms
proof (induction envs arbitrary: s db)
  case Nil
  {
    case 1 show ?case by simp
  next
    case 2 show ?case by simp
  next
    case 3 show ?case by simp
  }
next
  case (Cons env envs)
  {
    case 1
    show ?case
    proof (cases "is_running s")
      case True
      with 1 show ?thesis
        using Cons.IH(1)
        by (simp add: run_interval_schedule_unfold Let_def del: run_interval_schedule.simps(2))
    next
      case False
      then show ?thesis by simp
    qed
  next
    case 2
    show ?case
    proof (cases "is_running s")
      case True
      with 2 show ?thesis
        using Cons.IH(2)
        by (simp add: run_interval_schedule_unfold Let_def stop_def
            del: run_interval_schedule.simps(2))
    next
      case False
      then show ?thesis by simp
    qed
  next
    case 3
    then show ?case
      using Cons.IH(3) [of s]
      by (simp add: run_interval_schedule_unfold Let_def digest_events_no_sleep
          del: run_interval_schedule.simps(2))
  }
qed


end
